theory Spec2Isabelle
  imports Main "HOL-Library.Char_ord" "HOL-Library.Word"
begin

unbundle bit_operations_syntax

section \<open>Bytes and strings\<close>

text \<open>
  Go's \<open>byte\<close> is an unsigned 8-bit value and a Go \<open>string\<close> is a sequence of bytes.
  Both are modelled with \<^typ>\<open>char\<close>, which has exactly 256 values; the order on
  \<^typ>\<open>char\<close> is the order of the byte values.
\<close>

type_synonym byte = char

abbreviation backslash :: char where
  "backslash \<equiv> CHR 0x5C"

abbreviation dquote :: char where
  "dquote \<equiv> CHR 0x22"

section \<open>The @ByteArray literal encoder (client/certificate.go)\<close>

definition byteArrayIsHex :: "byte \<Rightarrow> bool" where
  "byteArrayIsHex b =
     (if b \<in> set ''0123456789'' then True
      else if b \<in> set ''abcdef'' then True
      else if b \<in> set ''ABCDEF'' then True
      else False)"

definition byteArrayPrefix :: string where
  "byteArrayPrefix = ''@ByteArray(''"

definition byteArraySuffix :: string where
  "byteArraySuffix = '')''"

definition byteArrayIsDigit :: "byte \<Rightarrow> bool" where
  "byteArrayIsDigit b = (CHR ''0'' \<le> b \<and> b \<le> CHR ''9'')"

definition byteArrayIsPrintable :: "byte \<Rightarrow> bool" where
  "byteArrayIsPrintable b =
     (if CHR ''a'' \<le> b \<and> b \<le> CHR ''z'' then True
      else if CHR ''A'' \<le> b \<and> b \<le> CHR ''Z'' then True
      else if byteArrayIsDigit b then True
      else if b \<in> set [CHR ''*'', CHR ''+'', CHR 0x27, CHR '' '', CHR '','', CHR '';'',
                        CHR 0x60, CHR ''~'', CHR ''{'', CHR ''}'', CHR ''('', CHR ''['',
                        CHR '')'', CHR '']'', CHR '':'', CHR ''.'', CHR ''$'', CHR ''|'',
                        CHR ''/'', CHR ''&'', CHR ''^'', CHR ''='', CHR ''-'', CHR ''%'',
                        CHR ''<'', CHR ''>'', CHR ''!'', CHR ''#'', CHR ''_'', CHR ''@'',
                        CHR ''?'']
      then True
      else False)"

text \<open>
  The control characters of the source, by value: tab 9, CR 13, bell 7, backspace 8,
  vertical tab 11, form feed 12, newline 10, NUL 0, double quote 34, backslash 92.
\<close>

definition byteArrayIsSpecial :: "byte \<Rightarrow> bool" where
  "byteArrayIsSpecial b =
     (if b \<in> set [CHR 0x09, CHR 0x0D, CHR 0x07, CHR 0x08, CHR 0x0B, CHR 0x0C, CHR 0x0A,
                   CHR 0x00, dquote, backslash]
      then True
      else False)"

definition byteArrayFormatSpecial :: "byte \<Rightarrow> string \<times> bool" where
  "byteArrayFormatSpecial b =
     (if b = CHR 0x09 then ([backslash, CHR ''t''], False)
      else if b = CHR 0x0D then ([backslash, CHR ''r''], False)
      else if b = CHR 0x07 then ([backslash, CHR ''a''], False)
      else if b = CHR 0x08 then ([backslash, CHR ''b''], False)
      else if b = CHR 0x0B then ([backslash, CHR ''v''], False)
      else if b = CHR 0x0C then ([backslash, CHR ''f''], False)
      else if b = CHR 0x0A then ([backslash, CHR ''n''], False)
      else if b = CHR 0x00 then ([backslash, CHR ''0''], True)
      else if b = dquote then ([backslash, dquote], False)
      else if b = backslash then ([backslash, backslash], False)
      else ([], False))"

text \<open>
  \<open>encoding/hex\<close> of the Go standard library: \<open>EncodeToString\<close> writes, for every
  byte, the digit of its high nibble and the digit of its low nibble, taken from the
  table \<open>0123456789abcdef\<close>.
\<close>

definition hextable :: string where
  "hextable = ''0123456789abcdef''"

definition hex_EncodeToString :: "byte list \<Rightarrow> string" where
  "hex_EncodeToString src =
     concat (map (\<lambda>v. [hextable ! (of_char v div 16), hextable ! (of_char v mod 16)]) src)"

definition byteArrayFormatEscaped :: "byte \<Rightarrow> string \<times> bool" where
  "byteArrayFormatEscaped b =
     (let out = hex_EncodeToString [b] in
      if out ! 0 = CHR ''0'' then ([backslash, CHR ''x''] @ drop 1 out, True)
      else ([backslash, CHR ''x''] @ out, True))"

definition byteArrayUnparseByte :: "byte \<Rightarrow> bool \<Rightarrow> string \<times> bool" where
  "byteArrayUnparseByte b previousHexBefore =
     (if byteArrayIsHex b \<and> previousHexBefore then byteArrayFormatEscaped b
      else if byteArrayIsPrintable b then ([b], False)
      else if byteArrayIsSpecial b then byteArrayFormatSpecial b
      else byteArrayFormatEscaped b)"

text \<open>
  The loop of \<open>byteArrayUnparse\<close>: the fragments appended to \<open>result\<close>, with the
  flag \<open>hexBefore\<close> carried from one byte to the next.
\<close>

fun byteArrayUnparseLoop :: "byte list \<Rightarrow> bool \<Rightarrow> string list" where
  "byteArrayUnparseLoop [] hexBefore = []"
| "byteArrayUnparseLoop (b # bs) hexBefore =
     (case byteArrayUnparseByte b hexBefore of
        (bb, hexBefore') \<Rightarrow> bb # byteArrayUnparseLoop bs hexBefore')"

definition byteArrayUnparse :: "byte list \<Rightarrow> string" where
  "byteArrayUnparse bs =
     concat ([byteArrayPrefix] @ byteArrayUnparseLoop bs False @ [byteArraySuffix])"

section \<open>The @ByteArray literal decoder\<close>

text \<open>
  Modelled from the spec: the decoder (the inverse of \<open>byteArrayUnparse\<close>, used for
  round-trip testing) is not part of \<open>client/certificate.go\<close>. The specification says:
  strip prefix and suffix, then scan left to right consuming either a literal printable
  character, a named two-character escape, or a hex escape with one or two hex digits.
  A hex escape takes two digits when two follow and one digit otherwise; any other input
  is rejected with \<open>None\<close>.
\<close>

definition byteArrayNamedEscape :: "char \<Rightarrow> byte option" where
  "byteArrayNamedEscape e =
     (if e = CHR ''t'' then Some (CHR 0x09)
      else if e = CHR ''r'' then Some (CHR 0x0D)
      else if e = CHR ''a'' then Some (CHR 0x07)
      else if e = CHR ''b'' then Some (CHR 0x08)
      else if e = CHR ''v'' then Some (CHR 0x0B)
      else if e = CHR ''f'' then Some (CHR 0x0C)
      else if e = CHR ''n'' then Some (CHR 0x0A)
      else if e = CHR ''0'' then Some (CHR 0x00)
      else if e = dquote then Some dquote
      else if e = backslash then Some backslash
      else None)"

definition fromHexChar :: "char \<Rightarrow> nat" where
  "fromHexChar c =
     (if CHR ''0'' \<le> c \<and> c \<le> CHR ''9'' then of_char c - of_char (CHR ''0'')
      else if CHR ''a'' \<le> c \<and> c \<le> CHR ''f'' then of_char c - of_char (CHR ''a'') + 10
      else if CHR ''A'' \<le> c \<and> c \<le> CHR ''F'' then of_char c - of_char (CHR ''A'') + 10
      else 0)"

fun byteArrayParseContent :: "string \<Rightarrow> byte list option" where
  "byteArrayParseContent [] = Some []"
| "byteArrayParseContent (c # cs) =
     (if c = backslash then
        (case cs of
           [] \<Rightarrow> None
         | e # r \<Rightarrow>
             if e = CHR ''x'' then
               (case r of
                  [] \<Rightarrow> None
                | h1 # r1 \<Rightarrow>
                    if \<not> byteArrayIsHex h1 then None
                    else
                      (case r1 of
                         [] \<Rightarrow> Some [char_of (fromHexChar h1)]
                       | h2 # r2 \<Rightarrow>
                           if byteArrayIsHex h2
                           then map_option ((#) (char_of (16 * fromHexChar h1 + fromHexChar h2)))
                                  (byteArrayParseContent r2)
                           else map_option ((#) (char_of (fromHexChar h1)))
                                  (byteArrayParseContent r1)))
             else
               (case byteArrayNamedEscape e of
                  None \<Rightarrow> None
                | Some b \<Rightarrow> map_option ((#) b) (byteArrayParseContent r)))
      else if byteArrayIsPrintable c then map_option ((#) c) (byteArrayParseContent cs)
      else None)"

definition byteArrayParse :: "string \<Rightarrow> byte list option" where
  "byteArrayParse s =
     (let n = length byteArrayPrefix; m = length byteArraySuffix in
      if n + m \<le> length s \<and> take n s = byteArrayPrefix \<and> drop (length s - m) s = byteArraySuffix
      then byteArrayParseContent (take (length s - n - m) (drop n s))
      else None)"

section \<open>Errors\<close>

text \<open>
  A Go \<open>error\<close> value. \<open>errors_New\<close> is an error made by \<open>errors.New\<close>; the other
  constructors stand for the error types of the standard library that reach this code.
  A panic is modelled as the value \<open>go_panic\<close>. \<open>PlaceholderNotFoundError\<close> and
  \<open>DatabaseWriteError\<close> are the two errors that the specification gives the database
  patcher.
\<close>

datatype error =
    errors_New string
  | go_panic string
  | url_EscapeError string
  | url_InvalidHostError string
  | url_InvalidPort string
  | url_Error string string error
  | net_AddrError string string
  | os_PathError string string
  | PlaceholderNotFoundError
  | DatabaseWriteError error

section \<open>SHA-1 (crypto/sha1 of the Go standard library)\<close>

text \<open>
  \<open>digestForCertificate\<close> calls \<open>sha1.New\<close>, \<open>Write\<close> and \<open>Sum\<close>. The digest
  is modelled as the library implements it: the state holds the five chaining words,
  the bytes of the unfinished block and the length written so far; \<open>Write\<close> hashes
  every complete block and keeps the rest; \<open>checkSum\<close> writes the padding and the
  length and serialises the chaining words big-endian. \<open>blockGeneric\<close> is the
  compression loop of \<open>sha1block.go\<close> with its 16-word circular schedule; it calls
  \<open>sha1_block1\<close> on blocks of exactly 64 bytes, so every index read there is in range.
\<close>

type_synonym uint32 = "32 word"
type_synonym uint64 = "64 word"

definition chunk :: nat where
  "chunk = 64"

definition sha1_init :: "uint32 list" where
  "sha1_init = [0x67452301, 0xEFCDAB89, 0x98BADCFE, 0x10325476, 0xC3D2E1F0]"

definition sha1_K :: "nat \<Rightarrow> uint32" where
  "sha1_K i = (if i < 20 then 0x5A827999 else if i < 40 then 0x6ED9EBA1
               else if i < 60 then 0x8F1BBCDC else 0xCA62C1D6)"

definition sha1_f :: "nat \<Rightarrow> uint32 \<Rightarrow> uint32 \<Rightarrow> uint32 \<Rightarrow> uint32" where
  "sha1_f i b c d =
     (if i < 20 then (b AND c) OR ((NOT b) AND d)
      else if i < 40 then b XOR c XOR d
      else if i < 60 then ((b OR c) AND d) OR (b AND c)
      else b XOR c XOR d)"

definition rotateLeft32 :: "uint32 \<Rightarrow> nat \<Rightarrow> uint32" where
  "rotateLeft32 v k = push_bit k v OR drop_bit (32 - k) v"

definition beUint32 :: "byte list \<Rightarrow> uint32" where
  "beUint32 p = push_bit 24 (of_char (p ! 0)) OR push_bit 16 (of_char (p ! 1))
                OR push_bit 8 (of_char (p ! 2)) OR of_char (p ! 3)"

definition byte_of :: "'a::len word \<Rightarrow> byte" where
  "byte_of v = Char (bit v 0) (bit v 1) (bit v 2) (bit v 3) (bit v 4) (bit v 5) (bit v 6) (bit v 7)"

definition bePutUint32 :: "uint32 \<Rightarrow> byte list" where
  "bePutUint32 v = [byte_of (drop_bit 24 v), byte_of (drop_bit 16 v),
                    byte_of (drop_bit 8 v), byte_of v]"

definition bePutUint64 :: "uint64 \<Rightarrow> byte list" where
  "bePutUint64 v = [byte_of (drop_bit 56 v), byte_of (drop_bit 48 v),
                    byte_of (drop_bit 40 v), byte_of (drop_bit 32 v),
                    byte_of (drop_bit 24 v), byte_of (drop_bit 16 v),
                    byte_of (drop_bit 8 v), byte_of v]"

type_synonym sha1_regs = "uint32 list \<times> uint32 \<times> uint32 \<times> uint32 \<times> uint32 \<times> uint32"

definition sha1_step :: "nat \<Rightarrow> sha1_regs \<Rightarrow> sha1_regs" where
  "sha1_step i s =
     (case s of (w, a, b, c, d, e) \<Rightarrow>
        let w' = (if i < 16 then w
                  else w[i mod 16 :=
                         rotateLeft32 (w ! ((i - 3) mod 16) XOR w ! ((i - 8) mod 16)
                                       XOR w ! ((i - 14) mod 16) XOR w ! (i mod 16)) 1]);
            t = rotateLeft32 a 5 + sha1_f i b c d + e + w' ! (i mod 16) + sha1_K i
        in (w', t, a, rotateLeft32 b 30, c, d))"

definition sha1_block1 :: "uint32 list \<Rightarrow> byte list \<Rightarrow> uint32 list" where
  "sha1_block1 h p =
     (case fold sha1_step [0..<80]
             (map (\<lambda>i. beUint32 (drop (i * 4) p)) [0..<16], h ! 0, h ! 1, h ! 2, h ! 3, h ! 4)
      of (w, a, b, c, d, e) \<Rightarrow> [h ! 0 + a, h ! 1 + b, h ! 2 + c, h ! 3 + d, h ! 4 + e])"

function blockGeneric :: "uint32 list \<Rightarrow> byte list \<Rightarrow> uint32 list" where
  "blockGeneric h p =
     (if length p \<ge> chunk then blockGeneric (sha1_block1 h (take chunk p)) (drop chunk p)
      else h)"
  by pat_completeness auto
termination
  by (relation "measure (\<lambda>(h, p). length p)") (auto simp: chunk_def)

record digest =
  dig_h :: "uint32 list"
  dig_x :: "byte list"
  dig_len :: uint64

definition sha1_New :: digest where
  "sha1_New = \<lparr>dig_h = sha1_init, dig_x = [], dig_len = 0\<rparr>"

definition sha1_Write :: "digest \<Rightarrow> byte list \<Rightarrow> digest \<times> nat \<times> error option" where
  "sha1_Write d p =
     (let buf = dig_x d @ p; n = (length buf div chunk) * chunk in
      (d\<lparr>dig_h := blockGeneric (dig_h d) (take n buf), dig_x := drop n buf,
         dig_len := dig_len d + of_nat (length p)\<rparr>,
       length p, None))"

definition checkSum :: "digest \<Rightarrow> error + byte list" where
  "checkSum d =
     (let l = dig_len d;
          t = (if unat (l mod 64) < 56 then 56 - unat (l mod 64) else 64 + 56 - unat (l mod 64));
          padlen = (CHR 0x80 # replicate (t - 1) (CHR 0x00)) @ bePutUint64 (push_bit 3 l);
          d' = fst (sha1_Write d padlen)
      in if dig_x d' \<noteq> [] then Inl (go_panic ''d.nx != 0'')
         else Inr (concat (map bePutUint32 (dig_h d'))))"

definition sha1_Sum :: "digest \<Rightarrow> byte list \<Rightarrow> error + byte list" where
  "sha1_Sum d b = (case checkSum d of Inl e \<Rightarrow> Inl e | Inr hash \<Rightarrow> Inr (b @ hash))"

text \<open>\<open>fmt.Sprintf("%x", bs)\<close> on a byte slice: two lowercase hex digits per byte.\<close>

definition fmt_Sprintf_x :: "byte list \<Rightarrow> string" where
  "fmt_Sprintf_x bs = hex_EncodeToString bs"

text \<open>\<open>digestForCertificate\<close> of client/certificate.go.\<close>

definition digestForCertificate :: "byte list \<Rightarrow> error + string" where
  "digestForCertificate cert =
     (case sha1_Write sha1_New cert of
        (d, _, Some err) \<Rightarrow> Inl err
      | (d, _, None) \<Rightarrow>
          (case sha1_Sum d [] of
             Inl e \<Rightarrow> Inl e
           | Inr bs \<Rightarrow> Inr (fmt_Sprintf_x bs)))"

text \<open>
  SHA-1 as the standard (FIPS 180-4) defines it, on a whole message: the message is
  followed by the byte 0x80, by the least number of zero bytes that makes the length
  congruent to 56 modulo 64, and by the length in bits as a 64-bit big-endian integer;
  the blocks of the padded message are then compressed in order.
\<close>

definition sha1_padding :: "nat \<Rightarrow> byte list" where
  "sha1_padding n =
     CHR 0x80 # replicate ((119 - n mod 64) mod 64) (CHR 0x00) @ bePutUint64 (of_nat (8 * n))"

definition SHA1 :: "byte list \<Rightarrow> byte list" where
  "SHA1 m = concat (map bePutUint32 (blockGeneric sha1_init (m @ sha1_padding (length m))))"


section \<open>Strings (package strings of the Go standard library)\<close>

definition strings_HasPrefix :: "string \<Rightarrow> string \<Rightarrow> bool" where
  "strings_HasPrefix s pre = (take (length pre) s = pre)"

fun strings_Contains :: "string \<Rightarrow> string \<Rightarrow> bool" where
  "strings_Contains [] substr = (substr = [])"
| "strings_Contains (c # cs) substr =
     (if strings_HasPrefix (c # cs) substr then True else strings_Contains cs substr)"

text \<open>
  \<open>strings.Replace(s, old, new, n)\<close> replaces the first \<open>n\<close> non-overlapping
  occurrences of \<open>old\<close>, found from left to right, and all of them when \<open>n < 0\<close>.
  Every call in this program passes a non-empty constant for \<open>old\<close>; the library's
  case of an empty \<open>old\<close> (an insertion at every rune boundary) is not modelled and
  leaves \<open>s\<close> unchanged here.
\<close>

function strings_Replace :: "string \<Rightarrow> string \<Rightarrow> string \<Rightarrow> int \<Rightarrow> string" where
  "strings_Replace s old new n =
     (if n = 0 \<or> old = [] \<or> s = [] then s
      else if strings_HasPrefix s old
        then new @ strings_Replace (drop (length old) s) old new (n - 1)
      else hd s # strings_Replace (tl s) old new n)"
  by pat_completeness auto
termination
  by (relation "measure (\<lambda>(s, old, new, n). length s)") auto

section \<open>Files\<close>

text \<open>
  The file system as far as this program uses it: the content of every existing file,
  and the paths at which a read or a write fails. \<open>ioutil.WriteFile\<close> creates the file
  when it does not exist; its permission argument is not modelled.
\<close>

record filesystem =
  files :: "string \<rightharpoonup> byte list"
  unreadable :: "string set"
  unwritable :: "string set"

definition ioutil_ReadFile :: "filesystem \<Rightarrow> string \<Rightarrow> error + byte list" where
  "ioutil_ReadFile fs name =
     (case files fs name of
        None \<Rightarrow> Inl (os_PathError ''open'' name)
      | Some content \<Rightarrow>
          if name \<in> unreadable fs then Inl (os_PathError ''read'' name) else Inr content)"

definition ioutil_WriteFile :: "filesystem \<Rightarrow> string \<Rightarrow> byte list \<Rightarrow> error option \<times> filesystem" where
  "ioutil_WriteFile fs name data =
     (if name \<in> unwritable fs then (Some (os_PathError ''write'' name), fs)
      else (None, fs\<lparr>files := (files fs)(name \<mapsto> data)\<rparr>))"

section \<open>The client and its database\<close>

text \<open>
  Modelled from the spec: the declaration of the client type is not in the given sources.
  The record holds what the functions below read of it: the path of the configuration
  file (\<open>c.configFile\<close>) and the path of the database file that \<open>c.db()\<close> opens.
\<close>

record client =
  configFile :: string
  databaseFile :: string

text \<open>
  Modelled from the spec: the database handle and its methods \<open>db\<close>, \<open>exists\<close>,
  \<open>replaceString\<close>, \<open>replaceInteger\<close> and \<open>write\<close> (here \<open>dbData_write\<close>) are called by
  client/certificate.go and defined elsewhere in the repository. The specification says:
  the database is an unparsed byte sequence; the idempotency check scans for the host as a
  substring; every occurrence of the placeholder hostname and of the placeholder digest is
  replaced; the placeholder port, encoded as a fixed-width 2-byte integer, is replaced by
  the actual port encoded the same width, wherever the byte pattern is found; the patch
  fails with \<open>PlaceholderNotFoundError\<close> if a placeholder sequence is absent and with
  \<open>DatabaseWriteError\<close> on an I/O failure during the commit, and the file then is left
  byte for byte as it was. \<open>storeCertificateInDB\<close> returns the result of \<open>write\<close> only,
  so the handle records a replacement that did not find its placeholder (\<open>dbMissing\<close>)
  and \<open>write\<close> reports it instead of committing. The specification does not fix the byte
  order of the 2-byte integer, so it is a parameter of the model.
\<close>

record dbData =
  dbFilename :: string
  dbContent :: "byte list"
  dbMissing :: bool

datatype byteOrder = BigEndian | LittleEndian

definition putUint16 :: "byteOrder \<Rightarrow> 16 word \<Rightarrow> byte list" where
  "putUint16 bo v =
     (case bo of
        BigEndian \<Rightarrow> [byte_of (drop_bit 8 v), byte_of v]
      | LittleEndian \<Rightarrow> [byte_of v, byte_of (drop_bit 8 v)])"

definition db :: "client \<Rightarrow> filesystem \<Rightarrow> error + dbData" where
  "db c fs =
     (case ioutil_ReadFile fs (databaseFile c) of
        Inl e \<Rightarrow> Inl e
      | Inr b \<Rightarrow> Inr \<lparr>dbFilename = databaseFile c, dbContent = b, dbMissing = False\<rparr>)"

definition exists :: "dbData \<Rightarrow> string \<Rightarrow> bool" where
  "exists d k = strings_Contains (dbContent d) k"

definition replaceString :: "dbData \<Rightarrow> string \<Rightarrow> string \<Rightarrow> dbData" where
  "replaceString d find' replace =
     (if strings_Contains (dbContent d) find'
      then d\<lparr>dbContent := strings_Replace (dbContent d) find' replace (-1)\<rparr>
      else d\<lparr>dbMissing := True\<rparr>)"

definition replaceInteger :: "byteOrder \<Rightarrow> dbData \<Rightarrow> 16 word \<Rightarrow> 16 word \<Rightarrow> dbData" where
  "replaceInteger bo d find' replace =
     (if strings_Contains (dbContent d) (putUint16 bo find')
      then d\<lparr>dbContent := strings_Replace (dbContent d) (putUint16 bo find')
                               (putUint16 bo replace) (-1)\<rparr>
      else d\<lparr>dbMissing := True\<rparr>)"

definition dbData_write :: "dbData \<Rightarrow> filesystem \<Rightarrow> error option \<times> filesystem" where
  "dbData_write d fs =
     (if dbMissing d then (Some PlaceholderNotFoundError, fs)
      else
        (case ioutil_WriteFile fs (dbFilename d) (dbContent d) of
           (Some err, fs') \<Rightarrow> (Some (DatabaseWriteError err), fs)
         | (None, fs') \<Rightarrow> (None, fs')))"

section \<open>Storing the certificate (client/certificate.go)\<close>

definition defaultHostToReplace :: string where
  "defaultHostToReplace = ''ffaaffaabbddaabbddeeaaddccaaffeebbaabbeeddeeaaddbbeeeeff.onion''"

definition defaultPortToReplace :: int where
  "defaultPortToReplace = 64738"

definition defaultDigestToReplace :: string where
  "defaultDigestToReplace = ''AAABACADAFBABBBCBDBEBFCACBCCCDCECFDADBDC''"

text \<open>
  \<open>uint16(port)\<close> keeps the low 16 bits of the integer. The calls to the logger do not
  change the client, the database or the result and are left out.
\<close>

definition storeCertificateInDB ::
  "byteOrder \<Rightarrow> client \<Rightarrow> filesystem \<Rightarrow> string \<Rightarrow> int \<Rightarrow> string
     \<Rightarrow> error option \<times> filesystem" where
  "storeCertificateInDB bo c fs id' port digest =
     (case db c fs of
        Inl err \<Rightarrow> (Some err, fs)
      | Inr d \<Rightarrow>
          let d1 = replaceString d defaultHostToReplace id';
              d2 = replaceString d1 defaultDigestToReplace digest;
              d3 = replaceInteger bo d2 (word_of_int defaultPortToReplace) (word_of_int port)
          in dbData_write d3 fs)"

definition isTheCertificateInDB :: "client \<Rightarrow> filesystem \<Rightarrow> string \<Rightarrow> bool" where
  "isTheCertificateInDB c fs hostname =
     (case db c fs of
        Inl err \<Rightarrow> False
      | Inr d \<Rightarrow> exists d hostname)"

text \<open>
  \<open>encoding/pem\<close> of the Go standard library is not modelled: \<open>pem.Decode\<close> is a
  parameter of \<open>storeCertificate\<close>, a function from the input bytes to the first PEM block
  found, or \<open>None\<close> where the library returns a nil block.
\<close>

record pem_Block =
  Type :: string
  Bytes :: "byte list"

definition storeCertificate ::
  "byteOrder \<Rightarrow> (byte list \<Rightarrow> pem_Block option) \<Rightarrow> client \<Rightarrow> filesystem
     \<Rightarrow> string \<Rightarrow> int \<Rightarrow> byte list \<Rightarrow> error option \<times> filesystem" where
  "storeCertificate bo pem_Decode c fs hostname port cert =
     (if isTheCertificateInDB c fs hostname then (None, fs)
      else
        (case pem_Decode cert of
           None \<Rightarrow> (Some (errors_New ''invalid certificate''), fs)
         | Some block \<Rightarrow>
             if Type block \<noteq> ''CERTIFICATE'' then (Some (errors_New ''invalid certificate''), fs)
             else
               (case digestForCertificate (Bytes block) of
                  Inl err \<Rightarrow> (Some err, fs)
                | Inr digest \<Rightarrow> storeCertificateInDB bo c fs hostname port digest)))"

section \<open>The certificate in the configuration file\<close>

text \<open>
  Modelled from the spec: the helper \<open>fileExists\<close> is defined elsewhere in the
  repository; the specification says the operation fails if the path does not exist.
\<close>

definition fileExists :: "filesystem \<Rightarrow> string \<Rightarrow> bool" where
  "fileExists fs name = (files fs name \<noteq> None)"

definition saveCertificateConfigFile ::
  "client \<Rightarrow> filesystem \<Rightarrow> string \<Rightarrow> error option \<times> filesystem" where
  "saveCertificateConfigFile c fs cert =
     (if length (configFile c) = 0 \<or> \<not> fileExists fs (configFile c)
      then (Some (errors_New ''invalid mumble.ini file''), fs)
      else
        (case ioutil_ReadFile fs (configFile c) of
           Inl err \<Rightarrow> (Some err, fs)
         | Inr content \<Rightarrow>
             let certSectionProp =
                   strings_Replace content ''#CERTIFICATE'' (''certificate='' @ cert) 1
             in ioutil_WriteFile fs (configFile c) certSectionProp))"

section \<open>Example states\<close>

text \<open>
  A PEM text whose only block is a CERTIFICATE with the three payload bytes abc (base64
  YWJj), and \<open>pem.Decode\<close> restricted to this input and to inputs without a block.
\<close>

definition example_pem :: "byte list" where
  "example_pem = ''-----BEGIN CERTIFICATE-----'' @ [CHR 0x0A] @ ''YWJj'' @ [CHR 0x0A]
                 @ ''-----END CERTIFICATE-----'' @ [CHR 0x0A]"

definition example_Decode :: "byte list \<Rightarrow> pem_Block option" where
  "example_Decode data =
     (if data = example_pem then Some \<lparr>Type = ''CERTIFICATE'', Bytes = ''abc''\<rparr> else None)"

definition example_client :: client where
  "example_client = \<lparr>configFile = ''mumble.ini'', databaseFile = ''.mumble.sqlite''\<rparr>"

definition example_fs :: "byte list \<Rightarrow> byte list \<Rightarrow> filesystem" where
  "example_fs database ini =
     \<lparr>files = [''mumble.ini'' \<mapsto> ini, ''.mumble.sqlite'' \<mapsto> database],
      unreadable = {}, unwritable = {}\<rparr>"

section \<open>URLs (net/url of the Go standard library)\<close>

text \<open>
  \<open>url.Parse\<close> as far as it decides the error and the field \<open>Host\<close>, which is all
  that \<open>extractHostAndPort\<close> reads. The fields \<open>User\<close>, \<open>RawPath\<close> and
  \<open>ForceQuery\<close> are not kept, but every check that can make the parse fail is.
\<close>

record URL =
  Scheme :: string
  Opaque :: string
  Host :: string
  Path :: string
  RawQuery :: string
  Fragment :: string

datatype encoding = encodePath | encodeUserPassword | encodeHost | encodeZone | encodeFragment

definition ishex :: "byte \<Rightarrow> bool" where
  "ishex c = ((CHR ''0'' \<le> c \<and> c \<le> CHR ''9'') \<or> (CHR ''a'' \<le> c \<and> c \<le> CHR ''f'')
            \<or> (CHR ''A'' \<le> c \<and> c \<le> CHR ''F''))"

definition unhex :: "byte \<Rightarrow> nat" where
  "unhex c =
     (if CHR ''0'' \<le> c \<and> c \<le> CHR ''9'' then of_char c - of_char (CHR ''0'')
      else if CHR ''a'' \<le> c \<and> c \<le> CHR ''f'' then of_char c - of_char (CHR ''a'') + 10
      else if CHR ''A'' \<le> c \<and> c \<le> CHR ''F'' then of_char c - of_char (CHR ''A'') + 10
      else 0)"

text \<open>\<open>shouldEscape(c, encodeHost)\<close>, the only mode in which \<open>unescape\<close> calls it.\<close>

definition shouldEscapeHost :: "byte \<Rightarrow> bool" where
  "shouldEscapeHost c =
     (if (CHR ''a'' \<le> c \<and> c \<le> CHR ''z'') \<or> (CHR ''A'' \<le> c \<and> c \<le> CHR ''Z'')
         \<or> (CHR ''0'' \<le> c \<and> c \<le> CHR ''9'') then False
      else if c \<in> set [CHR ''!'', CHR ''$'', CHR ''&'', CHR 0x27, CHR ''('', CHR '')'', CHR ''*'',
                        CHR ''+'', CHR '','', CHR '';'', CHR ''='', CHR '':'', CHR ''['',
                        CHR '']'', CHR ''<'', CHR ''>'', CHR 0x22] then False
      else if c \<in> set [CHR ''-'', CHR ''_'', CHR ''.'', CHR ''~''] then False
      else True)"

fun unescape_check :: "encoding \<Rightarrow> string \<Rightarrow> error option" where
  "unescape_check mode [] = None"
| "unescape_check mode (c # cs) =
     (if c = CHR ''%'' then
        (case cs of
           h1 # h2 # rest \<Rightarrow>
             if \<not> ishex h1 \<or> \<not> ishex h2 then Some (url_EscapeError [c, h1, h2])
             else if mode = encodeHost \<and> unhex h1 < 8 \<and> [c, h1, h2] \<noteq> ''%25''
               then Some (url_EscapeError [c, h1, h2])
             else if mode = encodeZone \<and> [c, h1, h2] \<noteq> ''%25''
                     \<and> char_of (unhex h1 * 16 + unhex h2) \<noteq> CHR '' ''
                     \<and> shouldEscapeHost (char_of (unhex h1 * 16 + unhex h2))
               then Some (url_EscapeError [c, h1, h2])
             else unescape_check mode rest
         | _ \<Rightarrow> Some (url_EscapeError (c # cs)))
      else if c = CHR ''+'' then unescape_check mode cs
      else if (mode = encodeHost \<or> mode = encodeZone) \<and> c < CHR 0x80 \<and> shouldEscapeHost c
        then Some (url_InvalidHostError [c])
      else unescape_check mode cs)"

fun unescape_decode :: "string \<Rightarrow> string" where
  "unescape_decode [] = []"
| "unescape_decode (c # cs) =
     (if c = CHR ''%'' then
        (case cs of
           h1 # h2 # rest \<Rightarrow> char_of (unhex h1 * 16 + unhex h2) # unescape_decode rest
         | _ \<Rightarrow> c # cs)
      else c # unescape_decode cs)"

definition unescape :: "string \<Rightarrow> encoding \<Rightarrow> error + string" where
  "unescape s mode =
     (case unescape_check mode s of
        Some err \<Rightarrow> Inl err
      | None \<Rightarrow> Inr (unescape_decode s))"

definition stringContainsCTLByte :: "string \<Rightarrow> bool" where
  "stringContainsCTLByte s = list_ex (\<lambda>b. b < CHR '' '' \<or> b = CHR 0x7F) s"

function getscheme_loop :: "string \<Rightarrow> nat \<Rightarrow> error + (string \<times> string)" where
  "getscheme_loop rawurl i =
     (if i < length rawurl then
        (let c = rawurl ! i in
         if (CHR ''a'' \<le> c \<and> c \<le> CHR ''z'') \<or> (CHR ''A'' \<le> c \<and> c \<le> CHR ''Z'')
           then getscheme_loop rawurl (i + 1)
         else if (CHR ''0'' \<le> c \<and> c \<le> CHR ''9'') \<or> c = CHR ''+'' \<or> c = CHR ''-'' \<or> c = CHR ''.''
           then (if i = 0 then Inr ([], rawurl) else getscheme_loop rawurl (i + 1))
         else if c = CHR '':''
           then (if i = 0 then Inl (errors_New ''missing protocol scheme'')
                 else Inr (take i rawurl, drop (i + 1) rawurl))
         else Inr ([], rawurl))
      else Inr ([], rawurl))"
  by pat_completeness auto
termination
  by (relation "measure (\<lambda>(rawurl, i). length rawurl - i)") auto

definition getscheme :: "string \<Rightarrow> error + (string \<times> string)" where
  "getscheme rawurl = getscheme_loop rawurl 0"

text \<open>
  \<open>split(s, sep, cutc)\<close>: cut \<open>s\<close> at the first \<open>sep\<close>; the separator is dropped when
  \<open>cutc\<close> holds and starts the second part otherwise.
\<close>

definition split_at :: "string \<Rightarrow> byte \<Rightarrow> bool \<Rightarrow> string \<times> string" where
  "split_at s sep cutc =
     (let a = takeWhile (\<lambda>c. c \<noteq> sep) s; b = dropWhile (\<lambda>c. c \<noteq> sep) s in
      if b = [] then (s, [])
      else if cutc then (a, tl b)
      else (a, b))"

definition validOptionalPort :: "string \<Rightarrow> bool" where
  "validOptionalPort port =
     (case port of
        [] \<Rightarrow> True
      | c # cs \<Rightarrow> if c \<noteq> CHR '':'' then False
                  else list_all (\<lambda>b. \<not> (b < CHR ''0'' \<or> b > CHR ''9'')) cs)"

definition validUserinfo :: "string \<Rightarrow> bool" where
  "validUserinfo s =
     list_all (\<lambda>r. (CHR ''A'' \<le> r \<and> r \<le> CHR ''Z'') \<or> (CHR ''a'' \<le> r \<and> r \<le> CHR ''z'')
                 \<or> (CHR ''0'' \<le> r \<and> r \<le> CHR ''9'')
                 \<or> r \<in> set [CHR ''-'', CHR ''.'', CHR ''_'', CHR '':'', CHR ''~'', CHR ''!'',
                              CHR ''$'', CHR ''&'', CHR 0x27, CHR ''('', CHR '')'', CHR ''*'',
                              CHR ''+'', CHR '','', CHR '';'', CHR ''='', CHR ''%'', CHR ''@'']) s"

text \<open>The index of the last (first) occurrence of a byte or string, as \<open>strings.LastIndex\<close>
  and \<open>strings.Index\<close> give it; \<open>None\<close> stands for -1.\<close>

fun index_from :: "string \<Rightarrow> string \<Rightarrow> nat \<Rightarrow> nat option" where
  "index_from [] sub i = (if sub = [] then Some i else None)"
| "index_from (c # cs) sub i =
     (if strings_HasPrefix (c # cs) sub then Some i else index_from cs sub (i + 1))"

definition strings_Index :: "string \<Rightarrow> string \<Rightarrow> nat option" where
  "strings_Index s sub = index_from s sub 0"

definition lastIndexByte :: "string \<Rightarrow> byte \<Rightarrow> nat option" where
  "lastIndexByte s c =
     (case index_from (rev s) [c] 0 of
        None \<Rightarrow> None
      | Some j \<Rightarrow> Some (length s - 1 - j))"

definition parseHost :: "string \<Rightarrow> error + string" where
  "parseHost host =
     (if strings_HasPrefix host ''[''
      then
        (case lastIndexByte host (CHR '']'') of
           None \<Rightarrow> Inl (errors_New (''missing '' @ [CHR 0x27, CHR '']'', CHR 0x27] @ '' in host''))
         | Some i \<Rightarrow>
             if \<not> validOptionalPort (drop (i + 1) host)
               then Inl (url_InvalidPort (drop (i + 1) host))
             else
               (case strings_Index (take i host) ''%25'' of
                  Some zone \<Rightarrow>
                    (case unescape (take zone host) encodeHost of
                       Inl err \<Rightarrow> Inl err
                     | Inr host1 \<Rightarrow>
                         (case unescape (take (i - zone) (drop zone host)) encodeZone of
                            Inl err \<Rightarrow> Inl err
                          | Inr host2 \<Rightarrow>
                              (case unescape (drop i host) encodeHost of
                                 Inl err \<Rightarrow> Inl err
                               | Inr host3 \<Rightarrow> Inr (host1 @ host2 @ host3))))
                | None \<Rightarrow> unescape host encodeHost))
      else
        (case lastIndexByte host (CHR '':'') of
           Some i \<Rightarrow>
             if \<not> validOptionalPort (drop i host) then Inl (url_InvalidPort (drop i host))
             else unescape host encodeHost
         | None \<Rightarrow> unescape host encodeHost))"

text \<open>\<open>parseAuthority\<close>: the host, and the checks on the user information before it.\<close>

definition parseAuthority :: "string \<Rightarrow> error + string" where
  "parseAuthority authority =
     (case lastIndexByte authority (CHR ''@'') of
        None \<Rightarrow> parseHost authority
      | Some i \<Rightarrow>
          (case parseHost (drop (i + 1) authority) of
             Inl err \<Rightarrow> Inl err
           | Inr host \<Rightarrow>
               let userinfo = take i authority in
               if \<not> validUserinfo userinfo then Inl (errors_New ''net/url: invalid userinfo'')
               else if CHR '':'' \<notin> set userinfo then
                 (case unescape userinfo encodeUserPassword of
                    Inl err \<Rightarrow> Inl err
                  | Inr _ \<Rightarrow> Inr host)
               else
                 (case split_at userinfo (CHR '':'') True of (username, password) \<Rightarrow>
                    (case unescape username encodeUserPassword of
                       Inl err \<Rightarrow> Inl err
                     | Inr _ \<Rightarrow>
                         (case unescape password encodeUserPassword of
                            Inl err \<Rightarrow> Inl err
                          | Inr _ \<Rightarrow> Inr host)))))"

definition toLower :: "byte \<Rightarrow> byte" where
  "toLower c = (if CHR ''A'' \<le> c \<and> c \<le> CHR ''Z'' then char_of (of_char c + (32::nat)) else c)"

definition emptyURL :: URL where
  "emptyURL = \<lparr>Scheme = [], Opaque = [], Host = [], Path = [], RawQuery = [], Fragment = []\<rparr>"

text \<open>\<open>parse(rawurl, viaRequest)\<close> with \<open>viaRequest = false\<close>, as \<open>Parse\<close> calls it.\<close>

definition parse :: "string \<Rightarrow> error + URL" where
  "parse rawurl =
     (if stringContainsCTLByte rawurl
        then Inl (errors_New ''net/url: invalid control character in URL'')
      else if rawurl = ''*'' then Inr (emptyURL\<lparr>Path := ''*''\<rparr>)
      else
        (case getscheme rawurl of
           Inl err \<Rightarrow> Inl err
         | Inr (scheme, rest0) \<Rightarrow>
             let url = emptyURL\<lparr>Scheme := map toLower scheme\<rparr>;
                 (rest, query) =
                   (if rest0 \<noteq> [] \<and> last rest0 = CHR ''?'' \<and> count_list rest0 (CHR ''?'') = 1
                    then (butlast rest0, [])
                    else split_at rest0 (CHR ''?'') True);
                 url = url\<lparr>RawQuery := query\<rparr>
             in
             if \<not> strings_HasPrefix rest ''/'' \<and> Scheme url \<noteq> []
               then Inr (url\<lparr>Opaque := rest\<rparr>)
             else if \<not> strings_HasPrefix rest ''/''
                     \<and> CHR '':'' \<in> set (takeWhile (\<lambda>c. c \<noteq> CHR ''/'') rest)
               then Inl (errors_New ''first path segment in URL cannot contain colon'')
             else
               (case (if (Scheme url \<noteq> [] \<or> \<not> strings_HasPrefix rest ''///'')
                          \<and> strings_HasPrefix rest ''//''
                      then (case split_at (drop 2 rest) (CHR ''/'') False of
                              (authority, rest') \<Rightarrow>
                                (case parseAuthority authority of
                                   Inl err \<Rightarrow> Inl err
                                 | Inr host \<Rightarrow> Inr (url\<lparr>Host := host\<rparr>, rest')))
                      else Inr (url, rest))
                of Inl err \<Rightarrow> Inl err
                 | Inr (url, rest) \<Rightarrow>
                     (case unescape rest encodePath of
                        Inl err \<Rightarrow> Inl err
                      | Inr path \<Rightarrow> Inr (url\<lparr>Path := path\<rparr>)))))"

definition url_Parse :: "string \<Rightarrow> error + URL" where
  "url_Parse rawurl =
     (case split_at rawurl (CHR ''#'') True of (u, frag) \<Rightarrow>
        (case parse u of
           Inl err \<Rightarrow> Inl (url_Error ''parse'' u err)
         | Inr url \<Rightarrow>
             if frag = [] then Inr url
             else
               (case unescape frag encodeFragment of
                  Inl err \<Rightarrow> Inl (url_Error ''parse'' rawurl err)
                | Inr f \<Rightarrow> Inr (url\<lparr>Fragment := f\<rparr>))))"

section \<open>Host and port (package net of the Go standard library)\<close>

definition net_SplitHostPort :: "string \<Rightarrow> error + (string \<times> string)" where
  "net_SplitHostPort hostport =
     (case lastIndexByte hostport (CHR '':'') of
        None \<Rightarrow> Inl (net_AddrError ''missing port in address'' hostport)
      | Some i \<Rightarrow>
          (case (if hostport ! 0 = CHR ''[''
                 then
                   (case strings_Index hostport '']'' of
                      None \<Rightarrow> Inl (net_AddrError (''missing '' @ [CHR 0x27, CHR '']'', CHR 0x27] @ '' in address'') hostport)
                    | Some end \<Rightarrow>
                        if end + 1 = length hostport
                          then Inl (net_AddrError ''missing port in address'' hostport)
                        else if end + 1 = i
                          then Inr (take (end - 1) (drop 1 hostport), 1, end + 1)
                        else if hostport ! (end + 1) = CHR '':''
                          then Inl (net_AddrError ''too many colons in address'' hostport)
                        else Inl (net_AddrError ''missing port in address'' hostport))
                 else
                   (if CHR '':'' \<in> set (take i hostport)
                      then Inl (net_AddrError ''too many colons in address'' hostport)
                    else Inr (take i hostport, 0, 0)))
           of Inl err \<Rightarrow> Inl err
            | Inr (host, j, k) \<Rightarrow>
                if CHR ''['' \<in> set (drop j hostport)
                  then Inl (net_AddrError (''unexpected '' @ [CHR 0x27, CHR ''['', CHR 0x27] @ '' in address'') hostport)
                else if CHR '']'' \<in> set (drop k hostport)
                  then Inl (net_AddrError (''unexpected '' @ [CHR 0x27, CHR '']'', CHR 0x27] @ '' in address'') hostport)
                else Inr (host, drop (i + 1) hostport)))"

section \<open>Address parsing (client/certificate.go)\<close>

definition extractHostAndPort :: "string \<Rightarrow> error + (string \<times> string)" where
  "extractHostAndPort address =
     (case url_Parse address of
        Inl err \<Rightarrow> Inl err
      | Inr u \<Rightarrow>
          (case net_SplitHostPort (Host u) of
             Inl err \<Rightarrow> Inl err
           | Inr (host, port) \<Rightarrow> Inr (host, port)))"

section \<open>Generating the certificate (client/certificate.go)\<close>

text \<open>
  \<open>genCertInto\<close> reads the clock, asks \<open>rsa.GenerateKey\<close> for a key and
  \<open>x509.CreateCertificate\<close> for the certificate, and writes two PEM blocks into two
  files. The clock, the random source, the two packages, the PEM encoder and the file
  system are not code of the repository: they are the fields of a record that the
  function takes, and each may fail as the Go function does. The calls that reach the
  file system are recorded in the order in which they are made.
\<close>

text \<open>Instants and durations count nanoseconds, as \<open>time.Duration\<close> does; the two
  durations of the source are constant expressions within the range of 64 bits.\<close>

definition time_Nanosecond :: int where "time_Nanosecond = 1"
definition time_Microsecond :: int where "time_Microsecond = 1000 * time_Nanosecond"
definition time_Millisecond :: int where "time_Millisecond = 1000 * time_Microsecond"
definition time_Second :: int where "time_Second = 1000 * time_Millisecond"
definition time_Minute :: int where "time_Minute = 60 * time_Second"
definition time_Hour :: int where "time_Hour = 60 * time_Minute"

definition time_Add :: "int \<Rightarrow> int \<Rightarrow> int" where
  "time_Add t d = t + d"

record pkix_Name =
  CommonName :: string

record x509_Certificate =
  SerialNumber :: int
  Subject :: pkix_Name
  NotBefore :: int
  NotAfter :: int
  SubjectKeyId :: "byte list"
  KeyUsage :: int

text \<open>The key usages of package x509, one bit each: \<open>1 << iota\<close>.\<close>

definition x509_KeyUsageDigitalSignature :: int where "x509_KeyUsageDigitalSignature = push_bit 0 1"
definition x509_KeyUsageContentCommitment :: int where "x509_KeyUsageContentCommitment = push_bit 1 1"
definition x509_KeyUsageKeyEncipherment :: int where "x509_KeyUsageKeyEncipherment = push_bit 2 1"
definition x509_KeyUsageDataEncipherment :: int where "x509_KeyUsageDataEncipherment = push_bit 3 1"
definition x509_KeyUsageKeyAgreement :: int where "x509_KeyUsageKeyAgreement = push_bit 4 1"
definition x509_KeyUsageCertSign :: int where "x509_KeyUsageCertSign = push_bit 5 1"
definition x509_KeyUsageCRLSign :: int where "x509_KeyUsageCRLSign = push_bit 6 1"
definition x509_KeyUsageEncipherOnly :: int where "x509_KeyUsageEncipherOnly = push_bit 7 1"
definition x509_KeyUsageDecipherOnly :: int where "x509_KeyUsageDecipherOnly = push_bit 8 1"

definition x509_KeyUsages :: "int list" where
  "x509_KeyUsages =
     [x509_KeyUsageDigitalSignature, x509_KeyUsageContentCommitment,
      x509_KeyUsageKeyEncipherment, x509_KeyUsageDataEncipherment, x509_KeyUsageKeyAgreement,
      x509_KeyUsageCertSign, x509_KeyUsageCRLSign, x509_KeyUsageEncipherOnly,
      x509_KeyUsageDecipherOnly]"

text \<open>The flags of \<open>os.OpenFile\<close> that the source names, joined with \<open>|\<close>, and a
  permission written in octal.\<close>

datatype os_flag = O_CREATE | O_WRONLY | O_TRUNC

definition octal :: "nat list \<Rightarrow> nat" where
  "octal ds = foldl (\<lambda>a d. 8 * a + d) 0 ds"

text \<open>
  The calls on files. \<open>closeAndIgnore\<close> is not in the source given: its calls are
  recorded with the file they receive, and nothing is assumed of what they do.
\<close>

datatype 'f call =
    call_OpenFile string "os_flag set" nat
  | call_Encode 'f pem_Block
  | call_closeAndIgnore 'f

text \<open>
  The surroundings: \<open>'k\<close> is a private key, \<open>'p\<close> a public key and \<open>'f\<close> an open file.
  \<open>rsa_GenerateKey\<close> takes the number of bits; the random source \<open>rand.Reader\<close> is
  part of the surroundings. \<open>os_OpenFile\<close> and \<open>pem_Encode\<close> are given the calls made
  before them, so that they may answer differently each time.
\<close>

record ('k, 'p, 'f) world =
  time_Now :: int
  rsa_GenerateKey :: "nat \<Rightarrow> error + 'k"
  PublicKey :: "'k \<Rightarrow> 'p"
  x509_CreateCertificate ::
    "x509_Certificate \<Rightarrow> x509_Certificate \<Rightarrow> 'p \<Rightarrow> 'k \<Rightarrow> error + byte list"
  x509_MarshalPKCS1PrivateKey :: "'k \<Rightarrow> byte list"
  os_OpenFile :: "'f call list \<Rightarrow> string \<Rightarrow> os_flag set \<Rightarrow> nat \<Rightarrow> error + 'f"
  pem_Encode :: "'f call list \<Rightarrow> 'f \<Rightarrow> pem_Block \<Rightarrow> error option"

text \<open>
  \<open>genCertInto\<close> returns the error, if any, and the calls made on files. A deferred
  \<open>closeAndIgnore\<close> runs when the function returns, the last deferred first.
\<close>

definition genCertInto ::
  "('k, 'p, 'f) world \<Rightarrow> string \<Rightarrow> string \<Rightarrow> error option \<times> 'f call list" where
  "genCertInto w certFilename keyFilename =
     (let now = time_Now w;
          tmpl = \<lparr>SerialNumber = 0,
                  Subject = \<lparr>CommonName = ''Wahay Autogenerated Certificate''\<rparr>,
                  NotBefore = time_Add now (- 300 * time_Second),
                  NotAfter = time_Add now (24 * time_Hour * 365),
                  SubjectKeyId = [CHR 0x01, CHR 0x02, CHR 0x03, CHR 0x04],
                  KeyUsage = x509_KeyUsageKeyEncipherment OR x509_KeyUsageDigitalSignature\<rparr>
      in
      case rsa_GenerateKey w 2048 of
        Inl err \<Rightarrow> (Some err, [])
      | Inr priv \<Rightarrow>
          (case x509_CreateCertificate w tmpl tmpl (PublicKey w priv) priv of
             Inl err \<Rightarrow> (Some err, [])
           | Inr certbuf \<Rightarrow>
               let certblk = \<lparr>Type = ''CERTIFICATE'', Bytes = certbuf\<rparr>;
                   keybuf = x509_MarshalPKCS1PrivateKey w priv;
                   keyblk = \<lparr>Type = ''RSA PRIVATE KEY'', Bytes = keybuf\<rparr>;
                   flags = {O_CREATE} \<union> {O_WRONLY} \<union> {O_TRUNC};
                   perm = octal [0, 6, 0, 0];
                   t1 = [call_OpenFile certFilename flags perm]
               in
               (case os_OpenFile w [] certFilename flags perm of
                  Inl err \<Rightarrow> (Some err, t1)
                | Inr file1 \<Rightarrow>
                    let t2 = t1 @ [call_Encode file1 certblk] in
                    (case pem_Encode w t1 file1 certblk of
                       Some err \<Rightarrow> (Some err, t2 @ [call_closeAndIgnore file1])
                     | None \<Rightarrow>
                         let t3 = t2 @ [call_OpenFile keyFilename flags perm] in
                         (case os_OpenFile w t2 keyFilename flags perm of
                            Inl err \<Rightarrow> (Some err, t3 @ [call_closeAndIgnore file1])
                          | Inr file2 \<Rightarrow>
                              let t4 = t3 @ [call_Encode file2 keyblk] in
                              (case pem_Encode w t3 file2 keyblk of
                                 Some err \<Rightarrow>
                                   (Some err, t4 @ [call_closeAndIgnore file2,
                                                    call_closeAndIgnore file1])
                               | None \<Rightarrow>
                                   (None, t4 @ [call_closeAndIgnore file2,
                                                call_closeAndIgnore file1])))))))"

text \<open>Surroundings in which every call succeeds: a key is the number of its bits, a file
  is its name.\<close>

definition example_world :: "(nat, nat, string) world" where
  "example_world =
     \<lparr>time_Now = 1600000000000000000,
      rsa_GenerateKey = (\<lambda>bits. Inr bits),
      PublicKey = (\<lambda>priv. priv),
      x509_CreateCertificate = (\<lambda>template parent pub priv. Inr ''der''),
      x509_MarshalPKCS1PrivateKey = (\<lambda>priv. ''pkcs1''),
      os_OpenFile = (\<lambda>calls name flags perm. Inr name),
      pem_Encode = (\<lambda>calls file block. None)\<rparr>"

section \<open>Evaluation of the encoder on single bytes\<close>

lemma hex_EncodeToString_single:
  "hex_EncodeToString [b] = [hextable ! (of_char b div 16), hextable ! (of_char b mod 16)]"
  by (simp add: hex_EncodeToString_def)

section \<open>The encoder on the vector 0xAB, '1'\<close>

text \<open>
  Claim C2. Encoding the two bytes 0xAB and '1' gives two hex escapes: 0xAB is not
  printable and not a named escape, so it is written as backslash, x, a, b; the digit
  '1' follows a hex escape, so it is written as backslash, x, 3, 1 and not literally.
\<close>

theorem byteArrayUnparse_AB_1:
  "byteArrayUnparse [CHR 0xAB, CHR ''1'']
     = ''@ByteArray('' @ [backslash, CHR ''x'', CHR ''a'', CHR ''b'']
         @ [backslash, CHR ''x'', CHR ''3'', CHR ''1''] @ '')''
   \<and> byteArrayUnparseByte (CHR 0xAB) False = ([backslash, CHR ''x'', CHR ''a'', CHR ''b''], True)
   \<and> byteArrayIsPrintable (CHR ''1'')
   \<and> byteArrayUnparseByte (CHR ''1'') True = ([backslash, CHR ''x'', CHR ''3'', CHR ''1''], True)
   \<and> byteArrayUnparseByte (CHR ''1'') False = (''1'', False)"
  by (simp add: byteArrayUnparse_def byteArrayUnparseByte_def byteArrayIsHex_def
      byteArrayIsPrintable_def byteArrayIsDigit_def byteArrayIsSpecial_def
      byteArrayFormatEscaped_def hex_EncodeToString_def hextable_def
      byteArrayPrefix_def byteArraySuffix_def)

section \<open>Round trip of the codec\<close>

lemma hextable_all: "\<forall>k \<in> set [0..<16]. byteArrayIsHex (hextable ! k) \<and> fromHexChar (hextable ! k) = k \<and> hextable ! k \<noteq> backslash"
  by code_simp

lemma hextable_nth: "k < 16 \<Longrightarrow> byteArrayIsHex (hextable ! k) \<and> fromHexChar (hextable ! k) = k \<and> hextable ! k \<noteq> backslash"
  using hextable_all by simp

lemma printable_not_backslash: "byteArrayIsPrintable c \<Longrightarrow> c \<noteq> backslash"
  by (auto simp: byteArrayIsPrintable_def byteArrayIsDigit_def)

lemma special_cases:
  "byteArrayIsSpecial b \<Longrightarrow> \<exists>e. fst (byteArrayFormatSpecial b) = [backslash, e] \<and> e \<noteq> CHR ''x'' \<and> byteArrayNamedEscape e = Some b"
  by (auto simp: byteArrayIsSpecial_def byteArrayFormatSpecial_def byteArrayNamedEscape_def split: if_splits)

lemma zero_digit: "k < 16 \<Longrightarrow> hextable ! k = CHR ''0'' \<Longrightarrow> k = 0"
proof -
  assume k: "k < 16" and z: "hextable ! k = CHR ''0''"
  have "fromHexChar (hextable ! k) = k" using hextable_nth [OF k] by simp
  moreover have "fromHexChar (CHR ''0'') = 0" by (simp add: fromHexChar_def)
  ultimately show "k = 0" using z by simp
qed

lemma char_of_nibbles: "char_of (16 * (of_char b div 16) + of_char b mod 16 :: nat) = (b::char)"
proof -
  have "16 * (of_char b div 16) + of_char b mod 16 = (of_char b :: nat)" by simp
  then show ?thesis by simp
qed

lemma of_char_div16: "(of_char (b::char) :: nat) div 16 < 16"
proof -
  have "(n::nat) < 256 \<Longrightarrow> n div 16 < 16" for n by arith
  moreover have "(of_char b :: nat) < 256" by simp
  ultimately show ?thesis by blast
qed

lemma escaped_parse:
  assumes "rest = [] \<or> \<not> byteArrayIsHex (hd rest)"
  shows "byteArrayParseContent (fst (byteArrayFormatEscaped b) @ rest)
           = map_option ((#) b) (byteArrayParseContent rest)"
proof -
  define hi where "hi = (of_char b :: nat) div 16"
  define lo where "lo = (of_char b :: nat) mod 16"
  have hi: "hi < 16" unfolding hi_def by (rule of_char_div16)
  have lo: "lo < 16" unfolding lo_def by simp
  have b: "char_of (16 * hi + lo) = b" unfolding hi_def lo_def by (rule char_of_nibbles)
  note H = hextable_nth [OF hi]
  note L = hextable_nth [OF lo]
  show ?thesis
  proof (cases "hextable ! hi = CHR ''0''")
    case True
    then have "hi = 0" using zero_digit [OF hi] by simp
    then have b': "char_of lo = b" using b by simp
    have frag: "fst (byteArrayFormatEscaped b) = [backslash, CHR ''x'', hextable ! lo]"
      using True by (simp add: byteArrayFormatEscaped_def hex_EncodeToString_single hi_def lo_def)
    show ?thesis
    proof (cases rest)
      case Nil
      then show ?thesis using frag L b' by simp
    next
      case (Cons h2 r2)
      then have "\<not> byteArrayIsHex h2" using assms by simp
      then show ?thesis using frag L b' Cons by simp
    qed
  next
    case False
    have frag: "fst (byteArrayFormatEscaped b) = [backslash, CHR ''x'', hextable ! hi, hextable ! lo]"
      using False by (simp add: byteArrayFormatEscaped_def hex_EncodeToString_single hi_def lo_def)
    show ?thesis using frag H L b by simp
  qed
qed

lemma snd_escaped: "snd (byteArrayFormatEscaped b) = True"
  by (simp add: byteArrayFormatEscaped_def Let_def)

lemma hd_escaped: "\<exists>t. fst (byteArrayFormatEscaped b) = backslash # t"
  by (simp add: byteArrayFormatEscaped_def Let_def)

lemma unparseByte_parse:
  assumes "snd (byteArrayUnparseByte b flag) \<longrightarrow> rest = [] \<or> \<not> byteArrayIsHex (hd rest)"
  shows "byteArrayParseContent (fst (byteArrayUnparseByte b flag) @ rest)
           = map_option ((#) b) (byteArrayParseContent rest)"
proof -
  consider (esc) "byteArrayUnparseByte b flag = byteArrayFormatEscaped b"
    | (lit) "byteArrayIsPrintable b" "byteArrayUnparseByte b flag = ([b], False)"
    | (spec) "byteArrayIsSpecial b" "byteArrayUnparseByte b flag = byteArrayFormatSpecial b"
    unfolding byteArrayUnparseByte_def
    by (cases "byteArrayIsHex b \<and> flag"; cases "byteArrayIsPrintable b"; cases "byteArrayIsSpecial b") simp_all
  then show ?thesis
  proof cases
    case esc
    then show ?thesis using assms escaped_parse [of rest b] by (simp add: snd_escaped)
  next
    case lit
    then show ?thesis using printable_not_backslash [of b] by simp
  next
    case spec
    obtain e where e: "fst (byteArrayFormatSpecial b) = [backslash, e]" "e \<noteq> CHR ''x''"
      "byteArrayNamedEscape e = Some b"
      using special_cases [OF spec(1)] by blast
    then show ?thesis using spec(2) by simp
  qed
qed

lemma backslash_not_hex: "\<not> byteArrayIsHex backslash"
  by (simp add: byteArrayIsHex_def)

lemma unparseByte_hd:
  "\<exists>c t. fst (byteArrayUnparseByte b True) = c # t \<and> \<not> byteArrayIsHex c"
proof -
  consider (esc) "byteArrayUnparseByte b True = byteArrayFormatEscaped b"
    | (lit) "\<not> byteArrayIsHex b" "byteArrayUnparseByte b True = ([b], False)"
    | (spec) "byteArrayIsSpecial b" "byteArrayUnparseByte b True = byteArrayFormatSpecial b"
    unfolding byteArrayUnparseByte_def
    by (cases "byteArrayIsHex b"; cases "byteArrayIsPrintable b"; cases "byteArrayIsSpecial b") simp_all
  then show ?thesis
  proof cases
    case esc
    then show ?thesis using hd_escaped [of b] backslash_not_hex by auto
  next
    case lit
    then show ?thesis by simp
  next
    case spec
    then show ?thesis using special_cases [OF spec(1)] backslash_not_hex by auto
  qed
qed

lemma loop_hd:
  "concat (byteArrayUnparseLoop bs True) = [] \<or> \<not> byteArrayIsHex (hd (concat (byteArrayUnparseLoop bs True)))"
proof (cases bs)
  case Nil
  then show ?thesis by simp
next
  case (Cons b bs')
  obtain c t where "fst (byteArrayUnparseByte b True) = c # t" "\<not> byteArrayIsHex c"
    using unparseByte_hd by blast
  then show ?thesis using Cons by (cases "byteArrayUnparseByte b True") auto
qed

lemma loop_roundtrip:
  "byteArrayParseContent (concat (byteArrayUnparseLoop bs flag)) = Some bs"
proof (induction bs arbitrary: flag)
  case Nil
  show ?case by simp
next
  case (Cons b bs)
  obtain frag flag' where u: "byteArrayUnparseByte b flag = (frag, flag')" by (cases "byteArrayUnparseByte b flag")
  let ?rest = "concat (byteArrayUnparseLoop bs flag')"
  have "flag' \<longrightarrow> ?rest = [] \<or> \<not> byteArrayIsHex (hd ?rest)" using loop_hd by auto
  then have "byteArrayParseContent (frag @ ?rest) = map_option ((#) b) (byteArrayParseContent ?rest)"
    using unparseByte_parse [of b flag ?rest] u by simp
  then show ?case using u Cons.IH by simp
qed

text \<open>
  Claim C1. Decoding the encoding of any byte sequence gives the byte sequence back.
  The decoder accepts the one-digit and the two-digit form of a hex escape: both
  backslash, x, a and backslash, x, 0, a decode to the byte 10.
\<close>

theorem byteArrayParse_byteArrayUnparse:
  "byteArrayParse (byteArrayUnparse bs) = Some bs
   \<and> byteArrayParse (''@ByteArray('' @ [backslash, CHR ''x'', CHR ''a''] @ '')'') = Some [CHR 0x0A]
   \<and> byteArrayParse (''@ByteArray('' @ [backslash, CHR ''x'', CHR ''0'', CHR ''a''] @ '')'') = Some [CHR 0x0A]"
proof -
  have "byteArrayParse (byteArrayUnparse bs) = Some bs"
    by (simp add: byteArrayParse_def byteArrayUnparse_def byteArrayPrefix_def
        byteArraySuffix_def loop_roundtrip)
  moreover have "byteArrayParse (''@ByteArray('' @ [backslash, CHR ''x'', CHR ''a''] @ '')'') = Some [CHR 0x0A]"
    by code_simp
  moreover have "byteArrayParse (''@ByteArray('' @ [backslash, CHR ''x'', CHR ''0'', CHR ''a''] @ '')'') = Some [CHR 0x0A]"
    by code_simp
  ultimately show ?thesis by simp
qed


section \<open>The carried flag after a named escape\<close>

lemma hex_chars_printable:
  "(\<forall>h \<in> set ''0123456789''. byteArrayIsPrintable h)
   \<and> (\<forall>h \<in> set ''abcdef''. byteArrayIsPrintable h)
   \<and> (\<forall>h \<in> set ''ABCDEF''. byteArrayIsPrintable h)"
  by code_simp

lemma hex_is_printable: "byteArrayIsHex h \<Longrightarrow> byteArrayIsPrintable h"
proof -
  assume "byteArrayIsHex h"
  then have "h \<in> set ''0123456789'' \<or> h \<in> set ''abcdef'' \<or> h \<in> set ''ABCDEF''"
    unfolding byteArrayIsHex_def by meson
  then show ?thesis using hex_chars_printable by blast
qed

lemma named_escapes_classes:
  "\<forall>b \<in> set [CHR 0x09, CHR 0x0D, CHR 0x07, CHR 0x08, CHR 0x0B, CHR 0x0C, CHR 0x0A, CHR 0x00,
              dquote, backslash].
     \<not> byteArrayIsHex b \<and> \<not> byteArrayIsPrintable b \<and> byteArrayIsSpecial b"
  by code_simp

lemma named_escape_unparse:
  "b \<in> set [CHR 0x09, CHR 0x0D, CHR 0x07, CHR 0x08, CHR 0x0B, CHR 0x0C, CHR 0x0A, CHR 0x00,
              dquote, backslash]
   \<Longrightarrow> byteArrayUnparseByte b prev = byteArrayFormatSpecial b"
  using named_escapes_classes unfolding byteArrayUnparseByte_def by (metis (full_types))

lemma named_escapes_flags:
  "\<forall>b \<in> set [CHR 0x09, CHR 0x0D, CHR 0x07, CHR 0x08, CHR 0x0B, CHR 0x0C, CHR 0x0A,
              dquote, backslash]. snd (byteArrayFormatSpecial b) = False"
  by code_simp

text \<open>
  Claim C3. The named escape of NUL sets the carried flag, so a hex digit that follows
  a NUL byte is hex-escaped. Each of the other nine named escapes (tab, CR, bell,
  backspace, vertical tab, form feed, newline, double quote, backslash) clears the flag,
  so a hex digit that follows one of them is written literally. This holds whatever the
  flag was before the named escape.
\<close>

theorem named_escape_flag:
  assumes "byteArrayIsHex h"
  shows "byteArrayFormatSpecial (CHR 0x00) = ([backslash, CHR ''0''], True)
    \<and> byteArrayUnparseByte (CHR 0x00) prev = ([backslash, CHR ''0''], True)
    \<and> byteArrayUnparseLoop [CHR 0x00, h] prev
         = [[backslash, CHR ''0''], fst (byteArrayFormatEscaped h)]
    \<and> (\<forall>b \<in> set [CHR 0x09, CHR 0x0D, CHR 0x07, CHR 0x08, CHR 0x0B, CHR 0x0C, CHR 0x0A,
                      dquote, backslash].
          snd (byteArrayFormatSpecial b) = False
        \<and> byteArrayUnparseByte b prev = (fst (byteArrayFormatSpecial b), False)
        \<and> byteArrayUnparseLoop [b, h] prev = [fst (byteArrayFormatSpecial b), [h]])"
proof -
  have p: "byteArrayIsPrintable h" using assms by (rule hex_is_printable)
  have lit: "byteArrayUnparseByte h False = ([h], False)"
    using p by (simp add: byteArrayUnparseByte_def)
  have esc: "byteArrayUnparseByte h True = byteArrayFormatEscaped h"
    using assms by (simp add: byteArrayUnparseByte_def)
  have nul: "byteArrayUnparseByte (CHR 0x00) prev = ([backslash, CHR ''0''], True)"
    using named_escape_unparse [of "CHR 0x00" prev] by (simp add: byteArrayFormatSpecial_def)
  have others: "snd (byteArrayFormatSpecial b) = False
      \<and> byteArrayUnparseByte b prev = (fst (byteArrayFormatSpecial b), False)"
    if "b \<in> set [CHR 0x09, CHR 0x0D, CHR 0x07, CHR 0x08, CHR 0x0B, CHR 0x0C, CHR 0x0A,
                   dquote, backslash]" for b
  proof -
    have "byteArrayUnparseByte b prev = byteArrayFormatSpecial b"
      using that by (intro named_escape_unparse) (simp, blast)
    moreover have "snd (byteArrayFormatSpecial b) = False"
      using that named_escapes_flags by blast
    ultimately show ?thesis by (simp add: prod_eq_iff)
  qed
  have c1: "byteArrayFormatSpecial (CHR 0x00) = ([backslash, CHR ''0''], True)"
    by (simp add: byteArrayFormatSpecial_def)
  have c3: "byteArrayUnparseLoop [CHR 0x00, h] prev
         = [[backslash, CHR ''0''], fst (byteArrayFormatEscaped h)]"
    using nul esc by (simp add: snd_escaped split: prod.splits)
  have c4: "byteArrayUnparseLoop [b, h] prev = [fst (byteArrayFormatSpecial b), [h]]"
    if "b \<in> set [CHR 0x09, CHR 0x0D, CHR 0x07, CHR 0x08, CHR 0x0B, CHR 0x0C, CHR 0x0A,
                   dquote, backslash]" for b
    using others [OF that] lit by simp
  show ?thesis
  proof (intro conjI ballI)
    show "byteArrayFormatSpecial (CHR 0x00) = ([backslash, CHR ''0''], True)" by (rule c1)
    show "byteArrayUnparseByte (CHR 0x00) prev = ([backslash, CHR ''0''], True)" by (rule nul)
    show "byteArrayUnparseLoop [CHR 0x00, h] prev
         = [[backslash, CHR ''0''], fst (byteArrayFormatEscaped h)]" by (rule c3)
  next
    fix b
    assume b: "b \<in> set [CHR 0x09, CHR 0x0D, CHR 0x07, CHR 0x08, CHR 0x0B, CHR 0x0C, CHR 0x0A,
                   dquote, backslash]"
    show "snd (byteArrayFormatSpecial b) = False" using others [OF b] by simp
    show "byteArrayUnparseByte b prev = (fst (byteArrayFormatSpecial b), False)"
      using others [OF b] by simp
    show "byteArrayUnparseLoop [b, h] prev = [fst (byteArrayFormatSpecial b), [h]]"
      by (rule c4 [OF b])
  qed
qed

theorem named_escape_flag_witness:
  "byteArrayIsHex (CHR ''1'')
   \<and> byteArrayUnparseLoop [CHR 0x00, CHR ''1''] False
        = [[backslash, CHR ''0''], [backslash, CHR ''x'', CHR ''3'', CHR ''1'']]
   \<and> byteArrayUnparseLoop [CHR 0x0A, CHR ''1''] False = [[backslash, CHR ''n''], ''1'']"
proof -
  have h: "byteArrayIsHex (CHR ''1'')" by (simp add: byteArrayIsHex_def)
  note T = named_escape_flag [OF h, of False]
  have a: "byteArrayUnparseLoop [CHR 0x00, CHR ''1''] False
        = [[backslash, CHR ''0''], fst (byteArrayFormatEscaped (CHR ''1''))]"
    using T by (simp del: byteArrayUnparseLoop.simps)
  have b: "byteArrayUnparseLoop [CHR 0x0A, CHR ''1''] False
        = [fst (byteArrayFormatSpecial (CHR 0x0A)), ''1'']"
    using T by (simp del: byteArrayUnparseLoop.simps)
  have e: "fst (byteArrayFormatEscaped (CHR ''1'')) = [backslash, CHR ''x'', CHR ''3'', CHR ''1'']"
    by (simp add: byteArrayFormatEscaped_def hex_EncodeToString_def hextable_def)
  have f: "fst (byteArrayFormatSpecial (CHR 0x0A)) = [backslash, CHR ''n'']"
    by (simp add: byteArrayFormatSpecial_def)
  show ?thesis using h a b e f by (simp del: byteArrayUnparseLoop.simps)
qed

section \<open>The certificate digest\<close>

declare blockGeneric.simps [simp del]

lemma length_sha1_block1: "length (sha1_block1 h p) = 5"
proof -
  have "length (case s of (w, a, b, c, d, e) \<Rightarrow>
          [h ! 0 + a, h ! 1 + b, h ! 2 + c, h ! 3 + d, h ! 4 + (e::uint32)]) = 5"
    for s :: sha1_regs
    by (cases s) simp
  then show ?thesis unfolding sha1_block1_def by blast
qed

lemma length_blockGeneric: "length h = 5 \<Longrightarrow> length (blockGeneric h p) = 5"
proof (induction h p rule: blockGeneric.induct)
  case (1 h p)
  show ?case
  proof (cases "length p \<ge> chunk")
    case True
    then show ?thesis
      using "1.IH" [OF True length_sha1_block1] by (subst blockGeneric.simps) simp
  next
    case False
    then show ?thesis using "1.prems" by (subst blockGeneric.simps) simp
  qed
qed

lemma blockGeneric_short: "length p < chunk \<Longrightarrow> blockGeneric h p = h"
  by (subst blockGeneric.simps) simp

lemma blockGeneric_append:
  "length A mod chunk = 0 \<Longrightarrow> blockGeneric h (A @ B) = blockGeneric (blockGeneric h A) B"
proof (induction h A rule: blockGeneric.induct)
  case (1 h A)
  show ?case
  proof (cases "length A \<ge> chunk")
    case True
    have m: "length (drop chunk A) mod chunk = 0"
      using "1.prems" True by (simp add: le_mod_geq)
    have "blockGeneric h (A @ B)
            = blockGeneric (sha1_block1 h (take chunk A)) (drop chunk A @ B)"
      using True by (subst blockGeneric.simps) simp
    also have "\<dots> = blockGeneric (blockGeneric (sha1_block1 h (take chunk A)) (drop chunk A)) B"
      using "1.IH" [OF True m] .
    also have "blockGeneric (sha1_block1 h (take chunk A)) (drop chunk A) = blockGeneric h A"
      using True by (subst (2) blockGeneric.simps) simp
    finally show ?thesis .
  next
    case False
    then have "A = []" using "1.prems" by (auto simp: chunk_def)
    then show ?thesis by (simp add: blockGeneric_short chunk_def)
  qed
qed

lemma unat_len_mod64: "unat ((of_nat n :: uint64) mod 64) = n mod 64"
proof -
  have "unat ((of_nat n :: uint64) mod 64) = unat (of_nat n :: uint64) mod 64"
    by (simp add: unat_mod)
  also have "\<dots> = (n mod 2 ^ 64) mod 64"
    by (simp add: unat_of_nat)
  also have "\<dots> = n mod 64"
    by (rule mod_mod_cancel) simp
  finally show ?thesis .
qed

lemma pad_zeros_lt: "r < 56 \<Longrightarrow> (119 - r) mod 64 = 55 - (r::nat)"
proof -
  assume "r < 56"
  then have "119 - r = 64 + (55 - r)" by simp
  then have "(119 - r) mod 64 = (55 - r) mod 64" by (metis mod_add_self1)
  then show ?thesis using \<open>r < 56\<close> by simp
qed

lemma pad_zeros_ge: "56 \<le> r \<Longrightarrow> r < 64 \<Longrightarrow> (119 - r) mod 64 = 119 - (r::nat)"
  by simp

lemma push_bit_len: "push_bit 3 (of_nat n :: uint64) = of_nat (8 * n)"
  by (simp add: push_bit_eq_mult mult.commute)

lemma go_padding:
  "(CHR 0x80 # replicate ((if n mod 64 < 56 then 56 - n mod 64 else 64 + 56 - n mod 64) - 1) (CHR 0x00))
     @ bePutUint64 (push_bit 3 (of_nat n))
   = sha1_padding n"
proof (cases "n mod 64 < 56")
  case True
  then have "(if n mod 64 < 56 then 56 - n mod 64 else 64 + 56 - n mod 64) - 1 = 55 - n mod 64"
    by simp
  then show ?thesis
    unfolding sha1_padding_def push_bit_len pad_zeros_lt [OF True] by simp
next
  case False
  have r: "n mod 64 < 64" by simp
  from False have ge: "56 \<le> n mod 64" by simp
  have "(if n mod 64 < 56 then 56 - n mod 64 else 64 + 56 - n mod 64) - 1 = 119 - n mod 64"
    using False by simp
  then show ?thesis
    unfolding sha1_padding_def push_bit_len pad_zeros_ge [OF ge r] by simp
qed

lemma length_bePutUint64: "length (bePutUint64 v) = 8"
  by (simp add: bePutUint64_def)

lemma length_sha1_padding: "(n mod 64 + length (sha1_padding n)) mod 64 = 0"
proof (cases "n mod 64 < 56")
  case True
  have "length (sha1_padding n) = (55 - n mod 64) + 9"
    unfolding sha1_padding_def pad_zeros_lt [OF True] by (simp add: length_bePutUint64)
  then have "n mod 64 + length (sha1_padding n) = 64" using True by simp
  then show ?thesis by simp
next
  case False
  have r: "n mod 64 < 64" by simp
  from False have ge: "56 \<le> n mod 64" by simp
  have "length (sha1_padding n) = (119 - n mod 64) + 9"
    unfolding sha1_padding_def pad_zeros_ge [OF ge r] by (simp add: length_bePutUint64)
  then have "n mod 64 + length (sha1_padding n) = 128" using ge r by simp
  then show ?thesis by simp
qed

lemma Write_full:
  assumes "length (dig_x d @ p) mod chunk = 0"
  shows "fst (sha1_Write d p)
           = d\<lparr>dig_h := blockGeneric (dig_h d) (dig_x d @ p), dig_x := [],
                dig_len := dig_len d + of_nat (length p)\<rparr>"
proof -
  have "(length (dig_x d @ p) div chunk) * chunk = length (dig_x d @ p)"
    using assms by (simp add: mod_0_imp_dvd)
  then show ?thesis by (simp add: sha1_Write_def Let_def)
qed

lemma Write_New:
  "sha1_Write sha1_New cert
     = (\<lparr>dig_h = blockGeneric sha1_init (take ((length cert div chunk) * chunk) cert),
          dig_x = drop ((length cert div chunk) * chunk) cert,
          dig_len = of_nat (length cert)\<rparr>, length cert, None)"
  by (simp add: sha1_Write_def sha1_New_def Let_def)

lemma length_tail: "length (drop ((length cert div chunk) * chunk) cert) = length cert mod 64"
  by (simp add: chunk_def minus_div_mult_eq_mod)

lemma checkSum_streamed:
  "checkSum \<lparr>dig_h = blockGeneric sha1_init (take ((length cert div chunk) * chunk) cert),
             dig_x = drop ((length cert div chunk) * chunk) cert,
             dig_len = of_nat (length cert)\<rparr> = Inr (SHA1 cert)"
proof -
  let ?n = "(length cert div chunk) * chunk"
  let ?d = "\<lparr>dig_h = blockGeneric sha1_init (take ?n cert), dig_x = drop ?n cert,
             dig_len = of_nat (length cert)\<rparr>"
  let ?pad = "sha1_padding (length cert)"
  have "length (dig_x ?d @ ?pad) = length cert mod 64 + length ?pad"
    using length_tail [of cert] by (simp del: length_drop)
  then have full: "length (dig_x ?d @ ?pad) mod chunk = 0"
    using length_sha1_padding [of "length cert"] by (simp only: chunk_def)
  have w: "fst (sha1_Write ?d ?pad)
      = ?d\<lparr>dig_h := blockGeneric (dig_h ?d) (dig_x ?d @ ?pad), dig_x := [],
            dig_len := dig_len ?d + of_nat (length ?pad)\<rparr>"
    by (rule Write_full [OF full])
  have "blockGeneric (blockGeneric sha1_init (take ?n cert)) (drop ?n cert @ ?pad)
          = blockGeneric sha1_init (take ?n cert @ drop ?n cert @ ?pad)"
    by (rule blockGeneric_append [symmetric]) (simp add: chunk_def)
  moreover have "take ?n cert @ drop ?n cert @ ?pad = cert @ ?pad"
    by (metis append_assoc append_take_drop_id)
  ultimately have bb: "blockGeneric (blockGeneric sha1_init (take ?n cert)) (drop ?n cert @ ?pad)
          = blockGeneric sha1_init (cert @ ?pad)"
    by (simp only:)
  then have hh: "blockGeneric (dig_h ?d) (dig_x ?d @ ?pad) = blockGeneric sha1_init (cert @ ?pad)"
    by (simp only: digest.simps)
  show ?thesis
    unfolding checkSum_def Let_def
    by (simp only: digest.simps unat_len_mod64 go_padding w hh SHA1_def) (simp add: bb)
qed

lemma digestForCertificate_SHA1:
  "digestForCertificate cert = Inr (hex_EncodeToString (SHA1 cert))"
  unfolding digestForCertificate_def Write_New
  by (simp add: sha1_Sum_def checkSum_streamed fmt_Sprintf_x_def)

lemma length_bePutUint32: "length (bePutUint32 v) = 4"
  by (simp add: bePutUint32_def)

lemma length_concat_be: "length (concat (map bePutUint32 ws)) = 4 * length ws"
  by (induction ws) (simp_all add: length_bePutUint32)

lemma length_SHA1: "length (SHA1 m) = 20"
  by (simp add: SHA1_def length_concat_be length_blockGeneric sha1_init_def)

lemma length_hex_EncodeToString: "length (hex_EncodeToString bs) = 2 * length bs"
  by (induction bs) (simp_all add: hex_EncodeToString_def)

lemma hextable_all_lower:
  "\<forall>k \<in> set [0..<16]. hextable ! k \<in> set ''0123456789abcdef''"
  by code_simp

lemma hex_EncodeToString_chars: "set (hex_EncodeToString bs) \<subseteq> set ''0123456789abcdef''"
proof -
  have d: "hextable ! k \<in> set ''0123456789abcdef''" if "k < 16" for k
    using hextable_all_lower that by simp
  have "(of_char (b::char) :: nat) div 16 < 16" for b
  proof -
    have "(n::nat) < 256 \<Longrightarrow> n div 16 < 16" for n by arith
    moreover have "(of_char b :: nat) < 256" by simp
    ultimately show ?thesis by blast
  qed
  then have "hextable ! (of_char b div 16) \<in> set ''0123456789abcdef''
      \<and> hextable ! (of_char b mod 16) \<in> set ''0123456789abcdef''" for b :: char
    using d by simp
  then show ?thesis unfolding hex_EncodeToString_def by (induction bs) auto
qed


lemma abc_padded:
  "''abc'' @ sha1_padding (length ''abc'')
     = [CHR ''a'', CHR ''b'', CHR ''c'', CHR 0x80,
        CHR 0x00, CHR 0x00, CHR 0x00, CHR 0x00, CHR 0x00, CHR 0x00, CHR 0x00, CHR 0x00,
        CHR 0x00, CHR 0x00, CHR 0x00, CHR 0x00, CHR 0x00, CHR 0x00, CHR 0x00, CHR 0x00,
        CHR 0x00, CHR 0x00, CHR 0x00, CHR 0x00, CHR 0x00, CHR 0x00, CHR 0x00, CHR 0x00,
        CHR 0x00, CHR 0x00, CHR 0x00, CHR 0x00, CHR 0x00, CHR 0x00, CHR 0x00, CHR 0x00,
        CHR 0x00, CHR 0x00, CHR 0x00, CHR 0x00, CHR 0x00, CHR 0x00, CHR 0x00, CHR 0x00,
        CHR 0x00, CHR 0x00, CHR 0x00, CHR 0x00, CHR 0x00, CHR 0x00, CHR 0x00, CHR 0x00,
        CHR 0x00, CHR 0x00, CHR 0x00, CHR 0x00, CHR 0x00, CHR 0x00, CHR 0x00, CHR 0x00,
        CHR 0x00, CHR 0x00, CHR 0x00, CHR 0x18]"
  by code_simp

lemma abc_schedule:
  "map (\<lambda>i. beUint32 (drop (i * 4)
        [CHR ''a'', CHR ''b'', CHR ''c'', CHR 0x80,
        CHR 0x00, CHR 0x00, CHR 0x00, CHR 0x00, CHR 0x00, CHR 0x00, CHR 0x00, CHR 0x00,
        CHR 0x00, CHR 0x00, CHR 0x00, CHR 0x00, CHR 0x00, CHR 0x00, CHR 0x00, CHR 0x00,
        CHR 0x00, CHR 0x00, CHR 0x00, CHR 0x00, CHR 0x00, CHR 0x00, CHR 0x00, CHR 0x00,
        CHR 0x00, CHR 0x00, CHR 0x00, CHR 0x00, CHR 0x00, CHR 0x00, CHR 0x00, CHR 0x00,
        CHR 0x00, CHR 0x00, CHR 0x00, CHR 0x00, CHR 0x00, CHR 0x00, CHR 0x00, CHR 0x00,
        CHR 0x00, CHR 0x00, CHR 0x00, CHR 0x00, CHR 0x00, CHR 0x00, CHR 0x00, CHR 0x00,
        CHR 0x00, CHR 0x00, CHR 0x00, CHR 0x00, CHR 0x00, CHR 0x00, CHR 0x00, CHR 0x00,
        CHR 0x00, CHR 0x00, CHR 0x00, CHR 0x18])) [0..<16]
   = [1633837952, 0, 0, 0, 0, 0, 0, 0, 0, 0, 0, 0, 0, 0, 0, 24]"
  by code_simp

lemma abc_rounds_0:
  "fold sha1_step [0, 1, 2, 3, 4, 5, 6, 7, 8, 9]
     ([1633837952, 0, 0, 0, 0, 0, 0, 0, 0, 0, 0, 0, 0, 0, 0, 24],
      1732584193, 4023233417, 2562383102, 271733878, 3285377520)
   = ([1633837952, 0, 0, 0, 0, 0, 0, 0, 0, 0, 0, 0, 0, 0, 0, 24],
      2203187497, 1265296168, 664994293, 1716489264, 267514512)"
  by (simp add: sha1_step_def sha1_f_def sha1_K_def rotateLeft32_def)

lemma abc_rounds_10:
  "fold sha1_step [10, 11, 12, 13, 14, 15, 16, 17, 18, 19]
     ([1633837952, 0, 0, 0, 0, 0, 0, 0, 0, 0, 0, 0, 0, 0, 0, 24],
      2203187497, 1265296168, 664994293, 1716489264, 267514512)
   = ([3267675904, 0, 48, 2240384513, 0, 0, 0, 0, 0, 0, 0, 0, 0, 0, 0, 24],
      4254997885, 3697578013, 548051402, 3550778888, 3358553483)"
  by (simp add: sha1_step_def sha1_f_def sha1_K_def rotateLeft32_def)

lemma abc_rounds_20:
  "fold sha1_step [20, 21, 22, 23, 24, 25, 26, 27, 28, 29]
     ([3267675904, 0, 48, 2240384513, 0, 0, 0, 0, 0, 0, 0, 0, 0, 0, 0, 24],
      4254997885, 3697578013, 548051402, 3550778888, 3358553483)
   = ([3267675904, 0, 48, 2240384513, 0, 96, 185801731, 48, 2240384705, 371603462, 0, 384, 743206924, 240, 0, 24],
      3321605981, 2205201710, 3534361445, 1871544053, 303058665)"
  by (simp add: sha1_step_def sha1_f_def sha1_K_def rotateLeft32_def)

lemma abc_rounds_30:
  "fold sha1_step [30, 31, 32, 33, 34, 35, 36, 37, 38, 39]
     ([3267675904, 0, 48, 2240384513, 0, 96, 185801731, 48, 2240384705, 371603462, 0, 384, 743206924, 240, 0, 24],
      3321605981, 2205201710, 3534361445, 1871544053, 303058665)
   = ([2392494594, 1536, 2972827888, 371604422, 1321128990, 1650688161, 371603462, 6336, 2240384705, 371603462, 0, 384, 743206924, 240, 2477765895, 1486413896],
      853417146, 1285055493, 4145604047, 64243702, 4147047474)"
  by (simp add: sha1_step_def sha1_f_def sha1_K_def rotateLeft32_def)

lemma abc_rounds_40:
  "fold sha1_step [40, 41, 42, 43, 44, 45, 46, 47, 48, 49]
     ([2392494594, 1536, 2972827888, 371604422, 1321128990, 1650688161, 371603462, 6336, 2240384705, 371603462, 0, 384, 743206924, 240, 2477765895, 1486413896],
      853417146, 1285055493, 4145604047, 64243702, 4147047474)
   = ([3667138029, 641206806, 2972827888, 371604422, 1321128990, 1650688161, 371603462, 6336, 3537975492, 3840, 989548665, 2307785957, 3803855915, 24768, 87701453, 1950713159],
      302461381, 3136525111, 2947236018, 671539483, 2266265724)"
  by (simp add: sha1_step_def sha1_f_def sha1_K_def rotateLeft32_def)

lemma abc_rounds_50:
  "fold sha1_step [50, 51, 52, 53, 54, 55, 56, 57, 58, 59]
     ([3667138029, 641206806, 2972827888, 371604422, 1321128990, 1650688161, 371603462, 6336, 3537975492, 3840, 989548665, 2307785957, 3803855915, 24768, 87701453, 1950713159],
      302461381, 3136525111, 2947236018, 671539483, 2266265724)
   = ([3667138029, 641206806, 1650688929, 1321161950, 943043659, 62976, 512018339, 2564836760, 1696405152, 1650822305, 1166361814, 1146637495, 3803855915, 24768, 87701453, 1950713159],
      1062395482, 165119485, 882425812, 4061233743, 3617133995)"
  by (simp add: sha1_step_def sha1_f_def sha1_K_def rotateLeft32_def)

lemma abc_rounds_60:
  "fold sha1_step [60, 61, 62, 63, 64, 65, 66, 67, 68, 69]
     ([3667138029, 641206806, 1650688929, 1321161950, 943043659, 62976, 512018339, 2564836760, 1696405152, 1650822305, 1166361814, 1146637495, 3803855915, 24768, 87701453, 1950713159],
      1062395482, 165119485, 882425812, 4061233743, 3617133995)
   = ([2094292125, 983040, 4216354106, 3966199272, 3124505570, 6340608, 512018339, 2564836760, 1696405152, 1650822305, 1166361814, 1146637495, 2074109465, 1669377698, 182801001, 1652246945],
      1059424450, 1232114624, 3728167754, 51346605, 1141216638)"
  by (simp add: sha1_step_def sha1_f_def sha1_K_def rotateLeft32_def)

lemma abc_rounds_70:
  "fold sha1_step [70, 71, 72, 73, 74, 75, 76, 77, 78, 79]
     ([2094292125, 983040, 4216354106, 3966199272, 3124505570, 6340608, 512018339, 2564836760, 1696405152, 1650822305, 1166361814, 1146637495, 2074109465, 1669377698, 182801001, 1652246945],
      1059424450, 1232114624, 3728167754, 51346605, 1141216638)
   = ([2094292125, 983040, 4216354106, 3966199272, 3124505570, 6340608, 976735493, 1166362356, 3092880854, 940186150, 31465987, 3888919638, 3873835881, 16124416, 1469443919, 2184054905],
      1112808245, 1463342561, 562251891, 1746824694, 3640522413)"
  by (simp add: sha1_step_def sha1_f_def sha1_K_def rotateLeft32_def)

lemma upt80:
  "[0..<80] = [0, 1, 2, 3, 4, 5, 6, 7, 8, 9] @ [10, 11, 12, 13, 14, 15, 16, 17, 18, 19] @ [20, 21, 22, 23, 24, 25, 26, 27, 28, 29] @ [30, 31, 32, 33, 34, 35, 36, 37, 38, 39] @ [40, 41, 42, 43, 44, 45, 46, 47, 48, 49] @ [50, 51, 52, 53, 54, 55, 56, 57, 58, 59] @ [60, 61, 62, 63, 64, 65, 66, 67, 68, 69] @ [70, 71, 72, 73, 74, 75, 76, 77, 78, 79]"
  by (simp add: upt_rec)

lemma abc_rounds:
  "fold sha1_step [0..<80]
     ([1633837952, 0, 0, 0, 0, 0, 0, 0, 0, 0, 0, 0, 0, 0, 0, 24],
      1732584193, 4023233417, 2562383102, 271733878, 3285377520)
   = ([2094292125, 983040, 4216354106, 3966199272, 3124505570, 6340608, 976735493, 1166362356, 3092880854, 940186150, 31465987, 3888919638, 3873835881, 16124416, 1469443919, 2184054905],
      1112808245, 1463342561, 562251891, 1746824694, 3640522413)"
  unfolding upt80 fold_append comp_apply
  by (simp only: abc_rounds_0 abc_rounds_10 abc_rounds_20 abc_rounds_30 abc_rounds_40 abc_rounds_50 abc_rounds_60 abc_rounds_70)

lemma abc_block1:
  "sha1_block1 sha1_init (''abc'' @ sha1_padding (length ''abc''))
     = [0xA9993E36, 0x4706816A, 0xBA3E2571, 0x7850C26C, 0x9CD0D89D]"
proof -
  have i: "sha1_init ! 0 = 0x67452301" "sha1_init ! 1 = 0xEFCDAB89" "sha1_init ! 2 = 0x98BADCFE"
    "sha1_init ! 3 = 0x10325476" "sha1_init ! 4 = 0xC3D2E1F0"
    by (simp_all add: sha1_init_def)
  show ?thesis
    unfolding sha1_block1_def abc_padded abc_schedule i abc_rounds by simp
qed

lemma abc_blockGeneric:
  "blockGeneric sha1_init (''abc'' @ sha1_padding (length ''abc''))
     = [0xA9993E36, 0x4706816A, 0xBA3E2571, 0x7850C26C, 0x9CD0D89D]"
proof -
  let ?p = "''abc'' @ sha1_padding (length ''abc'')"
  have l: "length ?p = chunk" unfolding abc_padded by (simp add: chunk_def)
  have "blockGeneric sha1_init ?p = blockGeneric (sha1_block1 sha1_init (take chunk ?p)) (drop chunk ?p)"
    using l by (subst blockGeneric.simps) simp
  also have "\<dots> = blockGeneric (sha1_block1 sha1_init ?p) []"
    using l by simp
  also have "\<dots> = sha1_block1 sha1_init ?p"
    by (rule blockGeneric_short) (simp add: chunk_def)
  finally show ?thesis by (simp only: abc_block1)
qed

lemma abc_digest:
  "hex_EncodeToString (SHA1 ''abc'') = ''a9993e364706816aba3e25717850c26c9cd0d89d''"
  unfolding SHA1_def abc_blockGeneric by code_simp


text \<open>
  Claim C4. For every DER byte sequence \<open>digestForCertificate\<close> returns, without error,
  the SHA-1 digest of the bytes written as lowercase hexadecimal: 40 characters, each one
  of 0-9 or a-f, with nothing between them. The result is a function of the bytes alone,
  so equal bytes give equal digests. On the bytes abc it is the digest of the standard's
  test vector.
\<close>

theorem digestForCertificate_sha1_hex:
  "digestForCertificate cert = Inr (hex_EncodeToString (SHA1 cert))
   \<and> length (SHA1 cert) = 20
   \<and> length (hex_EncodeToString (SHA1 cert)) = 40
   \<and> list_all (\<lambda>c. c \<in> set ''0123456789abcdef'') (hex_EncodeToString (SHA1 cert))
   \<and> digestForCertificate ''abc'' = Inr ''a9993e364706816aba3e25717850c26c9cd0d89d''"
proof -
  have "list_all (\<lambda>c. c \<in> set ''0123456789abcdef'') (hex_EncodeToString (SHA1 cert))"
    using hex_EncodeToString_chars [of "SHA1 cert"] unfolding list_all_iff by blast
  moreover have "digestForCertificate ''abc'' = Inr ''a9993e364706816aba3e25717850c26c9cd0d89d''"
    by (simp only: digestForCertificate_SHA1 abc_digest)
  ultimately show ?thesis
    by (simp only: digestForCertificate_SHA1 length_SHA1 length_hex_EncodeToString) simp
qed

section \<open>Patching the database\<close>

declare strings_Replace.simps [simp del]

lemma strings_Contains_prefix: "strings_HasPrefix s sub \<Longrightarrow> strings_Contains s sub"
  by (cases s) (auto simp: strings_HasPrefix_def)






























text \<open>
  Claim C10. \<open>storeCertificate\<close> asks first whether the hostname is in the database. If
  it is, the operation returns success and changes nothing, whatever the certificate
  bytes are, decodable or not. The error "invalid certificate" is returned only when the
  hostname is not found in the database, and then it is returned exactly when the bytes
  have no PEM block or the block is not of type CERTIFICATE.
\<close>

theorem storeCertificate_check_before_decode:
  "(isTheCertificateInDB c fs hostname
      \<longrightarrow> storeCertificate bo dec c fs hostname port cert = (None, fs))
   \<and> (fst (storeCertificate bo dec c fs hostname port cert) = Some (errors_New ''invalid certificate'')
      \<longrightarrow> \<not> isTheCertificateInDB c fs hostname)
   \<and> (\<not> isTheCertificateInDB c fs hostname
        \<and> (dec cert = None \<or> (\<exists>b. dec cert = Some b \<and> Type b \<noteq> ''CERTIFICATE''))
      \<longrightarrow> storeCertificate bo dec c fs hostname port cert
            = (Some (errors_New ''invalid certificate''), fs))"
  by (auto simp: storeCertificate_def)

theorem storeCertificate_check_before_decode_witness:
  "isTheCertificateInDB example_client (example_fs ''xx abcdefghijklmnop.onion yy'' [])
       ''abcdefghijklmnop.onion''
   \<and> example_Decode ''not a certificate'' = None
   \<and> storeCertificate BigEndian example_Decode example_client
         (example_fs ''xx abcdefghijklmnop.onion yy'' []) ''abcdefghijklmnop.onion'' 1234
         ''not a certificate''
       = (None, example_fs ''xx abcdefghijklmnop.onion yy'' [])
   \<and> \<not> isTheCertificateInDB example_client (example_fs ''foreign database'' [])
       ''abcdefghijklmnop.onion''
   \<and> storeCertificate BigEndian example_Decode example_client
         (example_fs ''foreign database'' []) ''abcdefghijklmnop.onion'' 1234
         ''not a certificate''
       = (Some (errors_New ''invalid certificate''), example_fs ''foreign database'' [])"
proof -
  have a: "isTheCertificateInDB example_client (example_fs ''xx abcdefghijklmnop.onion yy'' [])
       ''abcdefghijklmnop.onion''"
    by code_simp
  have b: "example_Decode ''not a certificate'' = None"
    by (simp add: example_Decode_def example_pem_def)
  have c: "\<not> isTheCertificateInDB example_client (example_fs ''foreign database'' [])
       ''abcdefghijklmnop.onion''"
    by code_simp
  show ?thesis
    using a b c
      storeCertificate_check_before_decode [of example_client
        "example_fs ''xx abcdefghijklmnop.onion yy'' []" "''abcdefghijklmnop.onion''"
        BigEndian example_Decode 1234 "''not a certificate''"]
      storeCertificate_check_before_decode [of example_client
        "example_fs ''foreign database'' []" "''abcdefghijklmnop.onion''"
        BigEndian example_Decode 1234 "''not a certificate''"]
    by blast
qed









section \<open>Injecting the certificate into the configuration file\<close>

lemma strings_Replace_first:
  assumes "old \<noteq> []" and "\<not> strings_Contains (pre @ butlast old) old"
  shows "strings_Replace (pre @ old @ post) old new 1 = pre @ new @ post"
  using assms(2)
proof (induction pre)
  case Nil
  have "strings_Replace (drop (length old) (old @ post)) old new 0 = post"
    by (subst strings_Replace.simps) simp
  then show ?case
    using assms(1) by (subst strings_Replace.simps) (simp add: strings_HasPrefix_def)
next
  case (Cons c p)
  let ?s = "(c # p) @ old @ post"
  have len: "length old \<le> length ((c # p) @ butlast old)" by simp
  have split: "?s = ((c # p) @ butlast old) @ [last old] @ post"
    using assms(1) by simp
  have np: "\<not> strings_HasPrefix ?s old"
  proof
    assume "strings_HasPrefix ?s old"
    then have "take (length old) (((c # p) @ butlast old) @ [last old] @ post) = old"
      unfolding strings_HasPrefix_def split .
    then have "take (length old) ((c # p) @ butlast old) = old"
      using len by (simp only: take_append) simp
    then have "strings_HasPrefix ((c # p) @ butlast old) old"
      by (simp add: strings_HasPrefix_def)
    then show False using Cons.prems strings_Contains_prefix by blast
  qed
  have "\<not> strings_Contains (p @ butlast old) old"
    using Cons.prems by (simp split: if_splits)
  then have ih: "strings_Replace (p @ old @ post) old new 1 = p @ new @ post"
    by (rule Cons.IH)
  show ?case
    using np ih assms(1) by (subst strings_Replace.simps) simp
qed

text \<open>
  Claim C7. \<open>saveCertificateConfigFile\<close> fails with an error when the path of the
  configuration file is empty or the file does not exist. When the file can be read and
  written and its first occurrence of the token #CERTIFICATE is at the end of \<open>pre\<close>,
  that occurrence is replaced by certificate= followed by the literal, and everything
  after it, other occurrences of the token included, is written back unchanged.
\<close>

theorem saveCertificateConfigFile_first_occurrence:
  "(length (configFile c) = 0 \<or> files fs (configFile c) = None
      \<longrightarrow> saveCertificateConfigFile c fs cert
            = (Some (errors_New ''invalid mumble.ini file''), fs))
   \<and> (configFile c \<noteq> []
        \<and> files fs (configFile c) = Some (pre @ ''#CERTIFICATE'' @ post)
        \<and> \<not> strings_Contains (pre @ ''#CERTIFICAT'') ''#CERTIFICATE''
        \<and> configFile c \<notin> unreadable fs \<and> configFile c \<notin> unwritable fs
      \<longrightarrow> saveCertificateConfigFile c fs cert
            = (None, fs\<lparr>files := (files fs)(configFile c \<mapsto>
                                   pre @ (''certificate='' @ cert) @ post)\<rparr>))"
proof (intro conjI impI)
  assume "length (configFile c) = 0 \<or> files fs (configFile c) = None"
  then show "saveCertificateConfigFile c fs cert
            = (Some (errors_New ''invalid mumble.ini file''), fs)"
    by (auto simp: saveCertificateConfigFile_def fileExists_def)
next
  assume a: "configFile c \<noteq> []
        \<and> files fs (configFile c) = Some (pre @ ''#CERTIFICATE'' @ post)
        \<and> \<not> strings_Contains (pre @ ''#CERTIFICAT'') ''#CERTIFICATE''
        \<and> configFile c \<notin> unreadable fs \<and> configFile c \<notin> unwritable fs"
  have "strings_Replace (pre @ ''#CERTIFICATE'' @ post) ''#CERTIFICATE'' (''certificate='' @ cert) 1
          = pre @ (''certificate='' @ cert) @ post"
    using a by (intro strings_Replace_first) simp_all
  then show "saveCertificateConfigFile c fs cert
            = (None, fs\<lparr>files := (files fs)(configFile c \<mapsto>
                                   pre @ (''certificate='' @ cert) @ post)\<rparr>)"
    using a
    by (simp add: saveCertificateConfigFile_def fileExists_def ioutil_ReadFile_def
        ioutil_WriteFile_def)
qed

theorem saveCertificateConfigFile_first_occurrence_witness:
  "saveCertificateConfigFile (example_client\<lparr>configFile := []\<rparr>) (example_fs [] []) ''@ByteArray(abc)''
     = (Some (errors_New ''invalid mumble.ini file''), example_fs [] [])
   \<and> files (example_fs [] []) ''missing.ini'' = None
   \<and> saveCertificateConfigFile (example_client\<lparr>configFile := ''missing.ini''\<rparr>)
         (example_fs [] []) ''@ByteArray(abc)''
     = (Some (errors_New ''invalid mumble.ini file''), example_fs [] [])
   \<and> \<not> strings_Contains (''[net] '' @ ''#CERTIFICAT'') ''#CERTIFICATE''
   \<and> fst (saveCertificateConfigFile example_client
              (example_fs [] (''[net] '' @ ''#CERTIFICATE'' @ '' [ui] #CERTIFICATE''))
              ''@ByteArray(abc)'') = None
   \<and> files (snd (saveCertificateConfigFile example_client
              (example_fs [] (''[net] '' @ ''#CERTIFICATE'' @ '' [ui] #CERTIFICATE''))
              ''@ByteArray(abc)'')) ''mumble.ini''
     = Some ''[net] certificate=@ByteArray(abc) [ui] #CERTIFICATE''"
proof -
  let ?fs = "example_fs [] (''[net] '' @ ''#CERTIFICATE'' @ '' [ui] #CERTIFICATE'')"
  have m: "files (example_fs [] []) ''missing.ini'' = None"
    by (simp add: example_fs_def)
  have n: "\<not> strings_Contains (''[net] '' @ ''#CERTIFICAT'') ''#CERTIFICATE''"
    by (simp add: strings_HasPrefix_def)
  have h: "configFile example_client \<noteq> []
        \<and> files ?fs (configFile example_client)
            = Some (''[net] '' @ ''#CERTIFICATE'' @ '' [ui] #CERTIFICATE'')
        \<and> \<not> strings_Contains (''[net] '' @ ''#CERTIFICAT'') ''#CERTIFICATE''
        \<and> configFile example_client \<notin> unreadable ?fs
        \<and> configFile example_client \<notin> unwritable ?fs"
    using n by (simp add: example_client_def example_fs_def)
  note T1 = saveCertificateConfigFile_first_occurrence
      [of "example_client\<lparr>configFile := []\<rparr>" "example_fs [] []" "''@ByteArray(abc)''"]
  note T2 = saveCertificateConfigFile_first_occurrence
      [of "example_client\<lparr>configFile := ''missing.ini''\<rparr>" "example_fs [] []"
          "''@ByteArray(abc)''"]
  note T3 = saveCertificateConfigFile_first_occurrence
      [of example_client ?fs "''@ByteArray(abc)''" "''[net] ''" "'' [ui] #CERTIFICATE''"]
  have a: "saveCertificateConfigFile (example_client\<lparr>configFile := []\<rparr>) (example_fs [] [])
             ''@ByteArray(abc)'' = (Some (errors_New ''invalid mumble.ini file''), example_fs [] [])"
    using T1 by simp
  have b: "saveCertificateConfigFile (example_client\<lparr>configFile := ''missing.ini''\<rparr>)
         (example_fs [] []) ''@ByteArray(abc)''
     = (Some (errors_New ''invalid mumble.ini file''), example_fs [] [])"
    using T2 m by simp
  have c: "saveCertificateConfigFile example_client ?fs ''@ByteArray(abc)''
     = (None, ?fs\<lparr>files := (files ?fs)(configFile example_client \<mapsto>
            ''[net] '' @ (''certificate='' @ ''@ByteArray(abc)'') @ '' [ui] #CERTIFICATE'')\<rparr>)"
    using T3 h by blast
  show ?thesis
    unfolding a b c using m n by (simp add: example_client_def)
qed

section \<open>Parsing the address\<close>

lemma index_from_absent: "c \<notin> set s \<Longrightarrow> index_from s [c] i = None"
  by (induction s arbitrary: i) (auto simp: strings_HasPrefix_def)

lemma lastIndexByte_absent: "c \<notin> set s \<Longrightarrow> lastIndexByte s c = None"
  by (simp add: lastIndexByte_def index_from_absent)

lemma net_SplitHostPort_no_colon:
  "CHR '':'' \<notin> set hostport
   \<Longrightarrow> net_SplitHostPort hostport = Inl (net_AddrError ''missing port in address'' hostport)"
  by (simp add: net_SplitHostPort_def lastIndexByte_absent)

lemma index_from_char:
  "index_from s [c] k = Some j
   \<Longrightarrow> k \<le> j \<and> j - k < length s \<and> s ! (j - k) = c \<and> c \<notin> set (take (j - k) s)"
proof (induction s arbitrary: k)
  case Nil
  then show ?case by simp
next
  case (Cons a s)
  show ?case
  proof (cases "a = c")
    case True
    then have "j = k" using Cons.prems by (simp add: strings_HasPrefix_def)
    then show ?thesis using True by simp
  next
    case False
    then have "index_from s [c] (k + 1) = Some j"
      using Cons.prems by (simp add: strings_HasPrefix_def)
    then have ih: "k + 1 \<le> j \<and> j - (k + 1) < length s \<and> s ! (j - (k + 1)) = c
                   \<and> c \<notin> set (take (j - (k + 1)) s)"
      by (rule Cons.IH)
    then have e: "j - k = Suc (j - (k + 1))" by linarith
    show ?thesis unfolding e using ih False by simp
  qed
qed

lemma index_from_first:
  "c \<notin> set a \<Longrightarrow> index_from (a @ c # b) [c] k = Some (k + length a)"
  by (induction a arbitrary: k) (auto simp: strings_HasPrefix_def)

lemma lastIndexByte_Some:
  assumes "lastIndexByte s c = Some i"
  shows "i < length s \<and> s ! i = c \<and> c \<notin> set (drop (Suc i) s)"
proof -
  obtain j where j: "index_from (rev s) [c] 0 = Some j" and i: "i = length s - 1 - j"
    using assms by (auto simp: lastIndexByte_def split: option.splits)
  have f: "j < length s" "rev s ! j = c" "c \<notin> set (take j (rev s))"
    using index_from_char [OF j] by simp_all
  have a: "i < length s" using f(1) i by simp
  have b: "s ! i = c" using f(1,2) i by (simp add: rev_nth)
  have "Suc i = length s - j" using f(1) i by simp
  then have "drop (Suc i) s = rev (take j (rev s))" by (simp add: take_rev)
  then have c: "c \<notin> set (drop (Suc i) s)" using f(3) by simp
  show ?thesis using a b c by blast
qed

lemma lastIndexByte_snoc: "lastIndexByte (h @ [c]) c = Some (length h)"
  by (simp add: lastIndexByte_def strings_HasPrefix_def)

lemma net_SplitHostPort_Inl:
  "net_SplitHostPort hp = Inl e \<Longrightarrow> \<exists>msg. e = net_AddrError msg hp"
  by (auto simp: net_SplitHostPort_def split: option.splits if_splits sum.splits prod.splits)

lemma net_SplitHostPort_Inr:
  "net_SplitHostPort hp = Inr (h, p)
   \<Longrightarrow> \<exists>i. lastIndexByte hp (CHR '':'') = Some i \<and> CHR '']'' \<notin> set (drop i hp)"
  by (auto simp: net_SplitHostPort_def split: option.splits if_splits sum.splits prod.splits
      dest: in_set_dropD)

lemma net_SplitHostPort_no_port:
  assumes hp: "hp = s @ t" and t: "CHR '':'' \<notin> set t" and s: "s = [] \<or> last s = CHR '']''"
  shows "\<exists>msg. net_SplitHostPort hp = Inl (net_AddrError msg hp)"
proof (cases "net_SplitHostPort hp")
  case (Inl e)
  then show ?thesis using net_SplitHostPort_Inl by blast
next
  case (Inr r)
  obtain h p where r: "r = (h, p)" by (cases r)
  obtain i where i: "lastIndexByte hp (CHR '':'') = Some i"
    and nb: "CHR '']'' \<notin> set (drop i hp)"
    using net_SplitHostPort_Inr Inr r by blast
  have il: "i < length hp" and ic: "hp ! i = CHR '':''"
    using lastIndexByte_Some [OF i] by simp_all
  have isl: "i < length s"
  proof (rule ccontr)
    assume "\<not> i < length s"
    then have "hp ! i = t ! (i - length s)" "i - length s < length t"
      using il hp by (simp_all add: nth_append)
    then have "hp ! i \<in> set t" by simp
    then show False using ic t by simp
  qed
  then have ne: "s \<noteq> []" by auto
  then have ls: "last s = CHR '']''" using s by simp
  have "hp ! (length s - 1) = CHR '']''"
    using ne ls hp by (simp add: nth_append last_conv_nth)
  moreover have "hp ! (length s - 1) = drop i hp ! (length s - 1 - i)"
    using isl il by simp
  moreover have "length s - 1 - i < length (drop i hp)"
    using isl ne hp by simp
  ultimately have "CHR '']'' \<in> set (drop i hp)" by (metis nth_mem)
  then show ?thesis using nb by simp
qed

lemma net_SplitHostPort_empty_port:
  assumes "CHR '':'' \<notin> set h" and "CHR ''['' \<notin> set h" and "CHR '']'' \<notin> set h"
  shows "net_SplitHostPort (h @ '':'') = Inr (h, [])"
proof -
  have "(h @ '':'') ! 0 \<noteq> CHR ''[''" using assms(2) by (cases h) auto
  then show ?thesis
    using assms by (simp add: net_SplitHostPort_def lastIndexByte_snoc)
qed

lemma net_SplitHostPort_bracket_empty_port:
  assumes "CHR ''['' \<notin> set h" and "CHR '']'' \<notin> set h"
  shows "net_SplitHostPort (''['' @ h @ '']:'') = Inr (h, [])"
proof -
  define hp where "hp = CHR ''['' # h @ '']:''"
  have e: "hp = (CHR ''['' # h @ '']'') @ [CHR '':'']" by (simp add: hp_def)
  have i: "lastIndexByte hp (CHR '':'') = Some (length h + 2)"
    unfolding e by (simp only: lastIndexByte_snoc) simp
  have "index_from (h @ CHR '']'' # '':'') '']'' 1 = Some (1 + length h)"
    using assms(2) by (rule index_from_first)
  then have x: "strings_Index hp '']'' = Some (length h + 1)"
    by (simp add: hp_def strings_Index_def strings_HasPrefix_def)
  have n: "hp ! 0 = CHR ''[''" "length hp = length h + 3" by (simp_all add: hp_def)
  have d2: "drop (Suc 0) hp = h @ '']:''" by (simp add: hp_def)
  have d3: "drop (Suc (Suc (length h))) hp = '':''" unfolding e by simp
  have d4: "drop (Suc (Suc (Suc (length h)))) hp = []" by (simp add: n)
  have r: "net_SplitHostPort hp = Inr (h, [])"
    unfolding net_SplitHostPort_def using assms by (simp add: i x n d2 d3 d4)
  show ?thesis using r by (simp add: hp_def)
qed

lemma url_Parse_example:
  "url_Parse ''http://host:1234/path''
     = Inr \<lparr>Scheme = ''http'', Opaque = [], Host = ''host:1234'', Path = ''/path'',
            RawQuery = [], Fragment = []\<rparr>"
  "url_Parse ''not a url''
     = Inr \<lparr>Scheme = [], Opaque = [], Host = [], Path = ''not a url'',
            RawQuery = [], Fragment = []\<rparr>"
  "url_Parse ''http://host/path''
     = Inr \<lparr>Scheme = ''http'', Opaque = [], Host = ''host'', Path = ''/path'',
            RawQuery = [], Fragment = []\<rparr>"
  "url_Parse ''http://host:/path''
     = Inr \<lparr>Scheme = ''http'', Opaque = [], Host = ''host:'', Path = ''/path'',
            RawQuery = [], Fragment = []\<rparr>"
  "url_Parse ''http://host:80a/''
     = Inl (url_Error ''parse'' ''http://host:80a/'' (url_InvalidPort '':80a''))"
  "url_Parse ''http://[::1]/path''
     = Inr \<lparr>Scheme = ''http'', Opaque = [], Host = ''[::1]'', Path = ''/path'',
            RawQuery = [], Fragment = []\<rparr>"
  "url_Parse ''http://localhost:/''
     = Inr \<lparr>Scheme = ''http'', Opaque = [], Host = ''localhost:'', Path = ''/'',
            RawQuery = [], Fragment = []\<rparr>"
  "url_Parse ''http://[::1]:/path''
     = Inr \<lparr>Scheme = ''http'', Opaque = [], Host = ''[::1]:'', Path = ''/path'',
            RawQuery = [], Fragment = []\<rparr>"
  by code_simp+

text \<open>
  Claim C8, as amended. \<open>extractHostAndPort\<close> maps http://host:1234/path to the host
  "host" and the port "1234". It fails on "not a url", and it fails with the error of
  \<open>url.Parse\<close> whenever the address does not parse. It fails with "missing port in
  address" whenever the parsed host contains no colon, and it fails with an address error
  of \<open>net.SplitHostPort\<close> whenever the parsed host has no colon after its last closing
  bracket, as in "[::1]". A host with a colon and nothing after it is not rejected: when
  the parsed host is \<open>h:\<close> with no colon and no bracket in \<open>h\<close>, or \<open>[h]:\<close> with no
  bracket in \<open>h\<close>, the result is the host \<open>h\<close> and the empty port. A host with a
  second colon outside brackets is rejected, as http://a:b:/path is with "too many colons
  in address".
\<close>

theorem extractHostAndPort_address:
  "extractHostAndPort ''http://host:1234/path'' = Inr (''host'', ''1234'')
   \<and> extractHostAndPort ''not a url'' = Inl (net_AddrError ''missing port in address'' [])
   \<and> (url_Parse address = Inl err \<longrightarrow> extractHostAndPort address = Inl err)
   \<and> (url_Parse address = Inr u \<and> CHR '':'' \<notin> set (Host u)
        \<longrightarrow> extractHostAndPort address
              = Inl (net_AddrError ''missing port in address'' (Host u)))
   \<and> (url_Parse address = Inr u \<and> Host u = s @ t \<and> CHR '':'' \<notin> set t
        \<and> (s = [] \<or> last s = CHR '']'')
        \<longrightarrow> (\<exists>msg. extractHostAndPort address = Inl (net_AddrError msg (Host u))))
   \<and> (url_Parse address = Inr u \<and> Host u = h @ '':''
        \<and> CHR '':'' \<notin> set h \<and> CHR ''['' \<notin> set h \<and> CHR '']'' \<notin> set h
        \<longrightarrow> extractHostAndPort address = Inr (h, []))
   \<and> (url_Parse address = Inr u \<and> Host u = ''['' @ h @ '']:''
        \<and> CHR ''['' \<notin> set h \<and> CHR '']'' \<notin> set h
        \<longrightarrow> extractHostAndPort address = Inr (h, []))
   \<and> extractHostAndPort ''http://a:b:/path''
       = Inl (net_AddrError ''too many colons in address'' ''a:b:'')"
proof (intro conjI impI)
  show "extractHostAndPort ''http://host:1234/path'' = Inr (''host'', ''1234'')"
    by code_simp
  show "extractHostAndPort ''not a url'' = Inl (net_AddrError ''missing port in address'' [])"
    by code_simp
  show "extractHostAndPort ''http://a:b:/path''
       = Inl (net_AddrError ''too many colons in address'' ''a:b:'')"
    by code_simp
next
  assume "url_Parse address = Inl err"
  then show "extractHostAndPort address = Inl err"
    by (simp add: extractHostAndPort_def)
next
  assume "url_Parse address = Inr u \<and> CHR '':'' \<notin> set (Host u)"
  then show "extractHostAndPort address = Inl (net_AddrError ''missing port in address'' (Host u))"
    by (simp add: extractHostAndPort_def net_SplitHostPort_no_colon)
next
  assume a: "url_Parse address = Inr u \<and> Host u = s @ t \<and> CHR '':'' \<notin> set t
        \<and> (s = [] \<or> last s = CHR '']'')"
  then obtain msg where "net_SplitHostPort (Host u) = Inl (net_AddrError msg (Host u))"
    using net_SplitHostPort_no_port [of "Host u" s t] by blast
  then have "extractHostAndPort address = Inl (net_AddrError msg (Host u))"
    using a by (simp add: extractHostAndPort_def)
  then show "\<exists>msg. extractHostAndPort address = Inl (net_AddrError msg (Host u))" by blast
next
  assume a: "url_Parse address = Inr u \<and> Host u = h @ '':''
        \<and> CHR '':'' \<notin> set h \<and> CHR ''['' \<notin> set h \<and> CHR '']'' \<notin> set h"
  then have "net_SplitHostPort (Host u) = Inr (h, [])"
    using net_SplitHostPort_empty_port [of h] by simp
  then show "extractHostAndPort address = Inr (h, [])"
    using a by (simp add: extractHostAndPort_def)
next
  assume a: "url_Parse address = Inr u \<and> Host u = ''['' @ h @ '']:''
        \<and> CHR ''['' \<notin> set h \<and> CHR '']'' \<notin> set h"
  then have "net_SplitHostPort (Host u) = Inr (h, [])"
    using net_SplitHostPort_bracket_empty_port [of h] by simp
  then show "extractHostAndPort address = Inr (h, [])"
    using a by (simp add: extractHostAndPort_def)
qed

theorem extractHostAndPort_address_witness:
  "url_Parse ''http://host:80a/''
     = Inl (url_Error ''parse'' ''http://host:80a/'' (url_InvalidPort '':80a''))
   \<and> extractHostAndPort ''http://host:80a/''
     = Inl (url_Error ''parse'' ''http://host:80a/'' (url_InvalidPort '':80a''))
   \<and> url_Parse ''http://host/path''
     = Inr \<lparr>Scheme = ''http'', Opaque = [], Host = ''host'', Path = ''/path'',
            RawQuery = [], Fragment = []\<rparr>
   \<and> CHR '':'' \<notin> set ''host''
   \<and> extractHostAndPort ''http://host/path''
     = Inl (net_AddrError ''missing port in address'' ''host'')
   \<and> url_Parse ''http://[::1]/path''
     = Inr \<lparr>Scheme = ''http'', Opaque = [], Host = ''[::1]'', Path = ''/path'',
            RawQuery = [], Fragment = []\<rparr>
   \<and> ''[::1]'' = ''[::1]'' @ [] \<and> CHR '':'' \<notin> set [] \<and> last ''[::1]'' = CHR '']''
   \<and> (\<exists>msg. extractHostAndPort ''http://[::1]/path'' = Inl (net_AddrError msg ''[::1]''))
   \<and> url_Parse ''http://localhost:/''
     = Inr \<lparr>Scheme = ''http'', Opaque = [], Host = ''localhost:'', Path = ''/'',
            RawQuery = [], Fragment = []\<rparr>
   \<and> CHR '':'' \<notin> set ''localhost'' \<and> CHR ''['' \<notin> set ''localhost''
   \<and> CHR '']'' \<notin> set ''localhost''
   \<and> extractHostAndPort ''http://localhost:/'' = Inr (''localhost'', [])
   \<and> url_Parse ''http://[::1]:/path''
     = Inr \<lparr>Scheme = ''http'', Opaque = [], Host = ''[::1]:'', Path = ''/path'',
            RawQuery = [], Fragment = []\<rparr>
   \<and> CHR ''['' \<notin> set ''::1'' \<and> CHR '']'' \<notin> set ''::1''
   \<and> extractHostAndPort ''http://[::1]:/path'' = Inr (''::1'', [])"
proof -
  let ?u2 = "\<lparr>Scheme = ''http'', Opaque = [], Host = ''host'', Path = ''/path'',
            RawQuery = [], Fragment = []\<rparr>"
  let ?u3 = "\<lparr>Scheme = ''http'', Opaque = [], Host = ''[::1]'', Path = ''/path'',
            RawQuery = [], Fragment = []\<rparr>"
  let ?u4 = "\<lparr>Scheme = ''http'', Opaque = [], Host = ''localhost:'', Path = ''/'',
            RawQuery = [], Fragment = []\<rparr>"
  let ?u5 = "\<lparr>Scheme = ''http'', Opaque = [], Host = ''[::1]:'', Path = ''/path'',
            RawQuery = [], Fragment = []\<rparr>"
  note T1 = extractHostAndPort_address [of "''http://host:80a/''"
      "url_Error ''parse'' ''http://host:80a/'' (url_InvalidPort '':80a'')"]
  note T2 = extractHostAndPort_address [of "''http://host/path''" _ ?u2]
  note T3 = extractHostAndPort_address [of "''http://[::1]/path''" _ ?u3 "''[::1]''" "[]"]
  note T4 = extractHostAndPort_address [of "''http://localhost:/''" _ ?u4 _ _ "''localhost''"]
  note T5 = extractHostAndPort_address [of "''http://[::1]:/path''" _ ?u5 _ _ "''::1''"]
  have a: "extractHostAndPort ''http://host:80a/''
     = Inl (url_Error ''parse'' ''http://host:80a/'' (url_InvalidPort '':80a''))"
    using T1 url_Parse_example(5) by blast
  have b0: "CHR '':'' \<notin> set ''host''" by simp
  have b: "extractHostAndPort ''http://host/path''
     = Inl (net_AddrError ''missing port in address'' ''host'')"
    using T2 url_Parse_example(3) by simp
  have c0: "''[::1]'' = ''[::1]'' @ [] \<and> CHR '':'' \<notin> set [] \<and> last ''[::1]'' = CHR '']''"
    by simp
  have c: "\<exists>msg. extractHostAndPort ''http://[::1]/path'' = Inl (net_AddrError msg ''[::1]'')"
    using T3 url_Parse_example(6) c0 by simp
  have d0: "CHR '':'' \<notin> set ''localhost'' \<and> CHR ''['' \<notin> set ''localhost''
            \<and> CHR '']'' \<notin> set ''localhost''"
    by simp
  have d: "extractHostAndPort ''http://localhost:/'' = Inr (''localhost'', [])"
    using T4 url_Parse_example(7) d0 by simp
  have e0: "CHR ''['' \<notin> set ''::1'' \<and> CHR '']'' \<notin> set ''::1''" by simp
  have e: "extractHostAndPort ''http://[::1]:/path'' = Inr (''::1'', [])"
    using T5 url_Parse_example(8) e0 by simp
  show ?thesis using a b0 b c0 c d0 d e0 e url_Parse_example(3,5,6,7,8) by blast
qed

text \<open>
  The claim C8 as stated fails for a host that ends in a colon with no port after it:
  \<open>url.Parse\<close> accepts the empty port and \<open>net.SplitHostPort\<close> returns it, so the
  address http://host:/path gives the host "host" and the empty port, without an error.
\<close>

theorem extractHostAndPort_empty_port_counterexample:
  "url_Parse ''http://host:/path''
     = Inr \<lparr>Scheme = ''http'', Opaque = [], Host = ''host:'', Path = ''/path'',
            RawQuery = [], Fragment = []\<rparr>
   \<and> extractHostAndPort ''http://host:/path'' = Inr (''host'', [])"
  by code_simp

section \<open>Generating the certificate\<close>

lemma genCertInto_durations:
  "time_Add now (- 300 * time_Second) = now - 300 * 1000000000"
  "time_Add now (24 * time_Hour * 365) = now + 365 * (24 * (3600 * 1000000000))"
  by (simp_all add: time_Add_def time_Hour_def time_Minute_def time_Second_def
      time_Millisecond_def time_Microsecond_def time_Nanosecond_def)

lemma genCertInto_KeyUsage:
  "x509_KeyUsageKeyEncipherment OR x509_KeyUsageDigitalSignature = 5"
  "filter (\<lambda>k. (5::int) AND k \<noteq> 0) x509_KeyUsages
     = [x509_KeyUsageDigitalSignature, x509_KeyUsageKeyEncipherment]"
  by (simp_all add: x509_KeyUsages_def x509_KeyUsageDigitalSignature_def
      x509_KeyUsageContentCommitment_def x509_KeyUsageKeyEncipherment_def
      x509_KeyUsageDataEncipherment_def x509_KeyUsageKeyAgreement_def
      x509_KeyUsageCertSign_def x509_KeyUsageCRLSign_def x509_KeyUsageEncipherOnly_def
      x509_KeyUsageDecipherOnly_def)

lemma genCertInto_OpenFile_arguments:
  "{O_CREATE} \<union> {O_WRONLY} \<union> {O_TRUNC} = {O_CREATE, O_WRONLY, O_TRUNC}"
  "octal [0, 6, 0, 0] = 384"
  by (auto simp: octal_def)

text \<open>
  Claim C9. When \<open>genCertInto\<close> returns without an error, it has asked
  \<open>rsa.GenerateKey\<close> for a key of 2048 bits and has obtained the certificate from
  \<open>x509.CreateCertificate\<close> with one template as the certificate and as its parent (the
  certificate is self-signed), the public key of the generated key, and the generated
  key. The template has the serial number 0, the common name "Wahay Autogenerated
  Certificate", a validity that starts 300 seconds before the time read from the clock
  and ends 365 days of 24 hours after it, the subject key identifier 1, 2, 3, 4, and of
  the nine key usages exactly digital signature and key encipherment. The calls on files
  are, in this order: the first path is opened with the flags create, write-only and
  truncate and the permission 0600 (octal, 384: read and write for the owner and nothing
  else); the block of type CERTIFICATE that holds the certificate is encoded into that
  file; the second path is opened with the same flags and permission; the block of type
  RSA PRIVATE KEY that holds the PKCS 1 form of the generated key is encoded into that
  file; the second file and then the first are closed. The statement holds for all paths,
  equal or not, whatever the files were before.
\<close>

theorem genCertInto_success:
  assumes "genCertInto w certFilename keyFilename = (None, calls)"
  shows "\<exists>priv certbuf file1 file2 tmpl.
           tmpl = \<lparr>SerialNumber = 0,
                   Subject = \<lparr>CommonName = ''Wahay Autogenerated Certificate''\<rparr>,
                   NotBefore = time_Now w - 300 * 1000000000,
                   NotAfter = time_Now w + 365 * (24 * (3600 * 1000000000)),
                   SubjectKeyId = [CHR 0x01, CHR 0x02, CHR 0x03, CHR 0x04],
                   KeyUsage = 5\<rparr>
         \<and> filter (\<lambda>k. KeyUsage tmpl AND k \<noteq> 0) x509_KeyUsages
             = [x509_KeyUsageDigitalSignature, x509_KeyUsageKeyEncipherment]
         \<and> rsa_GenerateKey w 2048 = Inr priv
         \<and> x509_CreateCertificate w tmpl tmpl (PublicKey w priv) priv = Inr certbuf
         \<and> os_OpenFile w [] certFilename {O_CREATE, O_WRONLY, O_TRUNC} 384 = Inr file1
         \<and> pem_Encode w [call_OpenFile certFilename {O_CREATE, O_WRONLY, O_TRUNC} 384] file1
              \<lparr>Type = ''CERTIFICATE'', Bytes = certbuf\<rparr> = None
         \<and> os_OpenFile w
              [call_OpenFile certFilename {O_CREATE, O_WRONLY, O_TRUNC} 384,
               call_Encode file1 \<lparr>Type = ''CERTIFICATE'', Bytes = certbuf\<rparr>]
              keyFilename {O_CREATE, O_WRONLY, O_TRUNC} 384 = Inr file2
         \<and> pem_Encode w
              [call_OpenFile certFilename {O_CREATE, O_WRONLY, O_TRUNC} 384,
               call_Encode file1 \<lparr>Type = ''CERTIFICATE'', Bytes = certbuf\<rparr>,
               call_OpenFile keyFilename {O_CREATE, O_WRONLY, O_TRUNC} 384] file2
              \<lparr>Type = ''RSA PRIVATE KEY'', Bytes = x509_MarshalPKCS1PrivateKey w priv\<rparr> = None
         \<and> calls =
              [call_OpenFile certFilename {O_CREATE, O_WRONLY, O_TRUNC} 384,
               call_Encode file1 \<lparr>Type = ''CERTIFICATE'', Bytes = certbuf\<rparr>,
               call_OpenFile keyFilename {O_CREATE, O_WRONLY, O_TRUNC} 384,
               call_Encode file2
                 \<lparr>Type = ''RSA PRIVATE KEY'', Bytes = x509_MarshalPKCS1PrivateKey w priv\<rparr>,
               call_closeAndIgnore file2,
               call_closeAndIgnore file1]"
proof -
  let ?flags = "{O_CREATE, O_WRONLY, O_TRUNC}"
  let ?tmpl = "\<lparr>SerialNumber = 0,
                   Subject = \<lparr>CommonName = ''Wahay Autogenerated Certificate''\<rparr>,
                   NotBefore = time_Now w - 300 * 1000000000,
                   NotAfter = time_Now w + 365 * (24 * (3600 * 1000000000)),
                   SubjectKeyId = [CHR 0x01, CHR 0x02, CHR 0x03, CHR 0x04],
                   KeyUsage = 5\<rparr>"
  note g = assms [unfolded genCertInto_def Let_def genCertInto_durations genCertInto_KeyUsage(1)
      genCertInto_OpenFile_arguments]
  obtain priv where p: "rsa_GenerateKey w 2048 = Inr priv"
    using g by (cases "rsa_GenerateKey w 2048") simp_all
  note g1 = g [unfolded p sum.case]
  obtain certbuf where c: "x509_CreateCertificate w ?tmpl ?tmpl (PublicKey w priv) priv = Inr certbuf"
    using g1 by (cases "x509_CreateCertificate w ?tmpl ?tmpl (PublicKey w priv) priv") simp_all
  note g2 = g1 [unfolded c sum.case]
  let ?certblk = "\<lparr>Type = ''CERTIFICATE'', Bytes = certbuf\<rparr>"
  let ?keyblk = "\<lparr>Type = ''RSA PRIVATE KEY'', Bytes = x509_MarshalPKCS1PrivateKey w priv\<rparr>"
  let ?o1 = "call_OpenFile certFilename ?flags 384"
  let ?o2 = "call_OpenFile keyFilename ?flags 384"
  obtain file1 where f1: "os_OpenFile w [] certFilename ?flags 384 = Inr file1"
    using g2 by (cases "os_OpenFile w [] certFilename ?flags 384") simp_all
  note g3 = g2 [unfolded f1 sum.case]
  have e1: "pem_Encode w [?o1] file1 ?certblk = None"
    using g3 by (cases "pem_Encode w [?o1] file1 ?certblk") simp_all
  note g4 = g3 [unfolded e1 option.case append.simps]
  obtain file2 where f2: "os_OpenFile w [?o1, call_Encode file1 ?certblk] keyFilename ?flags 384
                            = Inr file2"
    using g4
    by (cases "os_OpenFile w [?o1, call_Encode file1 ?certblk] keyFilename ?flags 384") simp_all
  note g5 = g4 [unfolded f2 sum.case]
  have e2: "pem_Encode w [?o1, call_Encode file1 ?certblk, ?o2] file2 ?keyblk = None"
    using g5
    by (cases "pem_Encode w [?o1, call_Encode file1 ?certblk, ?o2] file2 ?keyblk") simp_all
  have t: "calls = [?o1, call_Encode file1 ?certblk, ?o2, call_Encode file2 ?keyblk,
                    call_closeAndIgnore file2, call_closeAndIgnore file1]"
    using g5 e2 by simp
  have k: "filter (\<lambda>k. KeyUsage ?tmpl AND k \<noteq> 0) x509_KeyUsages
             = [x509_KeyUsageDigitalSignature, x509_KeyUsageKeyEncipherment]"
    by (simp only: x509_Certificate.simps genCertInto_KeyUsage(2))
  show ?thesis using p c f1 e1 f2 e2 t k by blast
qed

theorem genCertInto_success_witness:
  "genCertInto example_world ''cert.pem'' ''key.pem''
     = (None,
        [call_OpenFile ''cert.pem'' {O_CREATE, O_WRONLY, O_TRUNC} 384,
         call_Encode ''cert.pem'' \<lparr>Type = ''CERTIFICATE'', Bytes = ''der''\<rparr>,
         call_OpenFile ''key.pem'' {O_CREATE, O_WRONLY, O_TRUNC} 384,
         call_Encode ''key.pem'' \<lparr>Type = ''RSA PRIVATE KEY'', Bytes = ''pkcs1''\<rparr>,
         call_closeAndIgnore ''key.pem'',
         call_closeAndIgnore ''cert.pem''])
   \<and> rsa_GenerateKey example_world 2048 = Inr 2048
   \<and> (\<exists>certbuf.
        x509_CreateCertificate example_world
          \<lparr>SerialNumber = 0,
           Subject = \<lparr>CommonName = ''Wahay Autogenerated Certificate''\<rparr>,
           NotBefore = 1599999700000000000,
           NotAfter = 1631536000000000000,
           SubjectKeyId = [CHR 0x01, CHR 0x02, CHR 0x03, CHR 0x04],
           KeyUsage = 5\<rparr>
          \<lparr>SerialNumber = 0,
           Subject = \<lparr>CommonName = ''Wahay Autogenerated Certificate''\<rparr>,
           NotBefore = 1599999700000000000,
           NotAfter = 1631536000000000000,
           SubjectKeyId = [CHR 0x01, CHR 0x02, CHR 0x03, CHR 0x04],
           KeyUsage = 5\<rparr>
          (PublicKey example_world 2048) 2048 = Inr certbuf)"
proof -
  let ?calls = "[call_OpenFile ''cert.pem'' {O_CREATE, O_WRONLY, O_TRUNC} 384,
         call_Encode ''cert.pem'' \<lparr>Type = ''CERTIFICATE'', Bytes = ''der''\<rparr>,
         call_OpenFile ''key.pem'' {O_CREATE, O_WRONLY, O_TRUNC} 384,
         call_Encode ''key.pem'' \<lparr>Type = ''RSA PRIVATE KEY'', Bytes = ''pkcs1''\<rparr>,
         call_closeAndIgnore ''key.pem'',
         call_closeAndIgnore ''cert.pem'']"
  have a: "genCertInto example_world ''cert.pem'' ''key.pem'' = (None, ?calls)"
    unfolding genCertInto_def genCertInto_OpenFile_arguments Let_def
    by (simp add: example_world_def)
  have n: "time_Now example_world - 300 * 1000000000 = 1599999700000000000"
    "time_Now example_world + 365 * (24 * (3600 * 1000000000)) = 1631536000000000000"
    by (simp_all add: example_world_def)
  obtain priv certbuf where
    p: "rsa_GenerateKey example_world 2048 = Inr priv"
    and c: "x509_CreateCertificate example_world
          \<lparr>SerialNumber = 0,
           Subject = \<lparr>CommonName = ''Wahay Autogenerated Certificate''\<rparr>,
           NotBefore = 1599999700000000000,
           NotAfter = 1631536000000000000,
           SubjectKeyId = [CHR 0x01, CHR 0x02, CHR 0x03, CHR 0x04],
           KeyUsage = 5\<rparr>
          \<lparr>SerialNumber = 0,
           Subject = \<lparr>CommonName = ''Wahay Autogenerated Certificate''\<rparr>,
           NotBefore = 1599999700000000000,
           NotAfter = 1631536000000000000,
           SubjectKeyId = [CHR 0x01, CHR 0x02, CHR 0x03, CHR 0x04],
           KeyUsage = 5\<rparr>
          (PublicKey example_world priv) priv = Inr certbuf"
    using genCertInto_success [OF a, unfolded n] by blast
  have "priv = 2048" using p by (simp add: example_world_def)
  then show ?thesis using a p c by blast
qed

end
